theory Spec2Isabelle
  imports Main "HOL-Library.Mapping" "HOL-Library.AList_Mapping" "HOL-Library.Sublist"
begin

section \<open>Errors\<close>

text \<open>
  The values of Go's \<^verbatim>\<open>error\<close> interface that the provider creates or inspects.
  \<^item> \<open>AwsErr code message\<close> is an \<^verbatim>\<open>awserr.Error\<close> of the AWS SDK.
  \<^item> \<open>TimeoutError last\<close> is a \<^verbatim>\<open>*resource.TimeoutError\<close> with its \<^verbatim>\<open>LastError\<close>
    field (\<open>None\<close> for \<^verbatim>\<open>nil\<close>).
  \<^item> \<open>ErrorString s\<close> is \<^verbatim>\<open>errors.New(s)\<close>, or \<^verbatim>\<open>fmt.Errorf\<close> with no error argument.
  \<^item> \<open>ErrorText p e\<close> is \<^verbatim>\<open>fmt.Errorf(p + "%s", e)\<close> and \<^verbatim>\<open>errors.New(e.Error())\<close>
    (with \<open>p\<close> empty): a new error whose text is \<open>p\<close> followed by the text of \<open>e\<close>;
    \<open>e\<close> itself cannot be reached by unwrapping.
  \<^item> \<open>WrapError p e\<close> is \<^verbatim>\<open>fmt.Errorf(p + "%w", e)\<close>: it unwraps to \<open>e\<close>.
\<close>

datatype err =
    AwsErr string string
  | TimeoutError "err option"
  | ErrorString string
  | ErrorText string err
  | WrapError string err

text \<open>
  \<^verbatim>\<open>errors.As(err, &awsErr)\<close>: the first \<^verbatim>\<open>awserr.Error\<close> in the chain of \<open>e\<close>, as its
  code and message. The chain follows \<^verbatim>\<open>Unwrap\<close>, which \<^verbatim>\<open>%w\<close> errors and
  \<^verbatim>\<open>resource.TimeoutError\<close> (to its \<^verbatim>\<open>LastError\<close>) provide.
\<close>

fun as_awserr :: "err \<Rightarrow> (string \<times> string) option" where
  "as_awserr (AwsErr c m) = Some (c, m)"
| "as_awserr (TimeoutError None) = None"
| "as_awserr (TimeoutError (Some e)) = as_awserr e"
| "as_awserr (ErrorString s) = None"
| "as_awserr (ErrorText p e) = None"
| "as_awserr (WrapError p e) = as_awserr e"

text \<open>
  \<^verbatim>\<open>isAWSErr\<close> (util.go) calls \<^verbatim>\<open>tfawserr.ErrMessageContains\<close>: the error is an
  \<^verbatim>\<open>awserr.Error\<close>, its code is \<open>code\<close> and its message contains \<open>message\<close>
  (\<^verbatim>\<open>strings.Contains\<close>, here \<^const>\<open>sublist\<close>). A \<^verbatim>\<open>nil\<close> error is \<open>None\<close>.
\<close>

definition isAWSErr :: "err option \<Rightarrow> string \<Rightarrow> string \<Rightarrow> bool" where
  "isAWSErr e code message =
     (case e of
        None \<Rightarrow> False
      | Some e' \<Rightarrow>
          (case as_awserr e' of
             None \<Rightarrow> False
           | Some (c, m) \<Rightarrow> c = code \<and> sublist message m))"

text \<open>
  \<^verbatim>\<open>isResourceTimeoutError\<close> (util.go): the type assertion looks at the error itself, not
  at what it wraps, and the timeout must carry no last error.
\<close>

definition isResourceTimeoutError :: "err option \<Rightarrow> bool" where
  "isResourceTimeoutError e =
     (case e of
        Some (TimeoutError lastError) \<Rightarrow> lastError = None
      | _ \<Rightarrow> False)"

section \<open>The tag set model\<close>

text \<open>
  \<^verbatim>\<open>TagData\<close> has three pointer-like fields; \<open>None\<close> is a \<^verbatim>\<open>nil\<close> map or a \<^verbatim>\<open>nil\<close>
  string pointer, and a map's value of \<open>None\<close> is a \<^verbatim>\<open>nil\<close> pointer stored under the key.
  \<^verbatim>\<open>KeyValueTags\<close> is \<^verbatim>\<open>map[string]*TagData\<close>: a key can be present with a \<^verbatim>\<open>nil\<close> value.
\<close>

record TagData =
  AdditionalBoolFields :: "(string, bool option) mapping option"
  AdditionalStringFields :: "(string, string option) mapping option"
  Value :: "string option"

type_synonym KeyValueTags = "(string, TagData option) mapping"

record IgnoreConfig =
  Keys :: KeyValueTags
  KeyPrefixes :: KeyValueTags

definition AwsTagKeyPrefix :: string where
  "AwsTagKeyPrefix = ''aws:''"

text \<open>
  \<^verbatim>\<open>(*TagData).Equal\<close>. \<^verbatim>\<open>reflect.DeepEqual\<close> on maps of pointers and on string pointers
  compares nil-ness and then the contents, which is equality of the modelled values.
\<close>

fun Equal :: "TagData option \<Rightarrow> TagData option \<Rightarrow> bool" where
  "Equal None None = True"
| "Equal None (Some other) = False"
| "Equal (Some td) None = False"
| "Equal (Some td) (Some other) =
     (if AdditionalBoolFields td \<noteq> AdditionalBoolFields other then False
      else if AdditionalStringFields td \<noteq> AdditionalStringFields other then False
      else if Value td \<noteq> Value other then False
      else True)"

text \<open>
  The methods of \<^verbatim>\<open>KeyValueTags\<close>. Each Go loop ranges over one map and copies the entries
  that pass a test into a fresh map, which is \<^const>\<open>Mapping.filter\<close>.
\<close>

definition IgnoreAws :: "KeyValueTags \<Rightarrow> KeyValueTags" where
  "IgnoreAws tags = Mapping.filter (\<lambda>k v. \<not> prefix AwsTagKeyPrefix k) tags"

definition IgnorePrefixes :: "KeyValueTags \<Rightarrow> KeyValueTags \<Rightarrow> KeyValueTags" where
  "IgnorePrefixes tags ignoreTagPrefixes =
     Mapping.filter
       (\<lambda>k v. \<not> (\<exists>ignoreTagPrefix \<in> Mapping.keys ignoreTagPrefixes. prefix ignoreTagPrefix k))
       tags"

definition Ignore :: "KeyValueTags \<Rightarrow> KeyValueTags \<Rightarrow> KeyValueTags" where
  "Ignore tags ignoreTags = Mapping.filter (\<lambda>k v. Mapping.lookup ignoreTags k = None) tags"

definition IgnoreConfig :: "KeyValueTags \<Rightarrow> IgnoreConfig option \<Rightarrow> KeyValueTags" where
  "IgnoreConfig tags config =
     (case config of
        None \<Rightarrow> tags
      | Some c \<Rightarrow> Ignore (IgnorePrefixes tags (KeyPrefixes c)) (Keys c))"

text \<open>\<^verbatim>\<open>Map\<close>: a \<^verbatim>\<open>nil\<close> tag or a \<^verbatim>\<open>nil\<close> value reads as the empty string.\<close>

definition Map_tags :: "KeyValueTags \<Rightarrow> (string, string) mapping" where
  "Map_tags tags =
     Mapping.map_values
       (\<lambda>k v. case v of
                 None \<Rightarrow> ''''
               | Some td \<Rightarrow> (case Value td of None \<Rightarrow> '''' | Some s \<Rightarrow> s))
       tags"

text \<open>
  \<^verbatim>\<open>Keys\<close> returns the keys as a slice in the map's iteration order, which Go leaves
  unspecified; the model keeps the set. \<^verbatim>\<open>SsmTags\<close> likewise builds one tag per entry
  of \<^verbatim>\<open>Map()\<close>; the model keeps that map.
\<close>

definition Keys_tags :: "KeyValueTags \<Rightarrow> string set" where
  "Keys_tags tags = Mapping.keys tags"

definition SsmTags :: "KeyValueTags \<Rightarrow> (string, string) mapping" where
  "SsmTags tags = Map_tags tags"

definition Removed :: "KeyValueTags \<Rightarrow> KeyValueTags \<Rightarrow> KeyValueTags" where
  "Removed tags newTags = Mapping.filter (\<lambda>k v. Mapping.lookup newTags k = None) tags"

definition Updated :: "KeyValueTags \<Rightarrow> KeyValueTags \<Rightarrow> KeyValueTags" where
  "Updated tags newTags =
     Mapping.filter
       (\<lambda>k newV. case Mapping.lookup tags k of
                    None \<Rightarrow> True
                  | Some oldV \<Rightarrow> \<not> Equal oldV newV)
       newTags"

text \<open>
  The argument of \<^verbatim>\<open>New\<close> is an \<^verbatim>\<open>interface{}\<close>; the cases of its type switch are the
  constructors of \<open>tag_input\<close>, and \<open>OtherInput\<close> is any other dynamic type. An
  \<^verbatim>\<open>interface{}\<close> element is a string or something else; the type assertion
  \<^verbatim>\<open>v.(string)\<close> panics on something else, and \<^const>\<open>None\<close> is that panic.
\<close>

datatype iface = IfString string | IfOther

datatype tag_input =
    TagDataMap "(string, TagData option) mapping"
  | StringMap "(string, string) mapping"
  | StringPtrMap "(string, string option) mapping"
  | InterfaceMap "(string, iface) mapping"
  | StringSlice "string list"
  | InterfaceSlice "iface list"
  | OtherInput

definition tag_of_string :: "string \<Rightarrow> TagData option" where
  "tag_of_string s =
     Some \<lparr>AdditionalBoolFields = None, AdditionalStringFields = None, Value = Some s\<rparr>"

fun is_string :: "iface \<Rightarrow> bool" where
  "is_string (IfString s) = True"
| "is_string IfOther = False"

fun string_of :: "iface \<Rightarrow> string" where
  "string_of (IfString s) = s"
| "string_of IfOther = ''''"

fun New :: "tag_input \<Rightarrow> KeyValueTags option" where
  "New (TagDataMap m) = Some m"
| "New (StringMap m) = Some (Mapping.map_values (\<lambda>k v. tag_of_string v) m)"
| "New (StringPtrMap m) =
     Some (Mapping.map_values
             (\<lambda>k strPtr. case strPtr of None \<Rightarrow> None | Some s \<Rightarrow> tag_of_string s) m)"
| "New (InterfaceMap m) =
     (if Mapping.is_empty (Mapping.filter (\<lambda>k v. \<not> is_string v) m)
      then Some (Mapping.map_values (\<lambda>k v. tag_of_string (string_of v)) m)
      else None)"
| "New (StringSlice vs) = Some (Mapping.tabulate vs (\<lambda>k. None))"
| "New (InterfaceSlice vs) =
     (if list_all is_string vs
      then Some (Mapping.tabulate (map string_of vs) (\<lambda>k. None))
      else None)"
| "New OtherInput = Some Mapping.empty"

section \<open>Remote services and the resource record\<close>

text \<open>
  The shapes of the AWS SDK that the provider reads and writes. Every field that is a
  pointer in Go is an \<open>option\<close>; \<^verbatim>\<open>aws.String(s)\<close> is never \<^verbatim>\<open>nil\<close>, so the fields of the
  write request that are always assigned are plain strings.
\<close>

record Parameter =
  Param_Name :: "string option"
  Param_Value :: "string option"
  Param_Type :: "string option"
  Param_Version :: "int option"
  Param_ARN :: "string option"

record ParameterMetadata =
  Meta_KeyId :: "string option"
  Meta_Description :: "string option"
  Meta_Tier :: "string option"
  Meta_AllowedPattern :: "string option"
  Meta_DataType :: "string option"

record SsmTag =
  Tag_Key :: "string option"
  Tag_Value :: "string option"

record PutParameterInput =
  Put_Name :: string
  Put_Type :: string
  Put_Tier :: "string option"
  Put_Value :: string
  Put_Overwrite :: bool
  Put_AllowedPattern :: string
  Put_DataType :: "string option"
  Put_Description :: "string option"
  Put_KeyId :: string

text \<open>
  One remote call, with the request fields the provider fills in. The provider's view
  of the world is the list of calls made so far, oldest first.
\<close>

datatype call =
    GetParameter string bool
  | DescribeParameters string
  | ListTagsForResource string string
  | DeleteParameter string
  | PutParameter PutParameterInput
  | RemoveTagsFromResource string string "string set"
  | AddTagsToResource string string "(string, string) mapping"
  | Decrypt string string

text \<open>
  \<^verbatim>\<open>AWSClient\<close> holds the two service connections and the ignore configuration. The
  services are outside the repository: each is a function from the calls made so far
  and the request to the reply, so that a service may answer the same request
  differently the second time. \<open>Inl\<close> (or \<open>Some\<close>) is the error the call returns.
\<close>

record AWSClient =
  GetParameter_reply :: "call list \<Rightarrow> string \<Rightarrow> err + Parameter option"
  DescribeParameters_reply ::
    "call list \<Rightarrow> string \<Rightarrow> err + ParameterMetadata option list option"
  ListTagsForResource_reply :: "call list \<Rightarrow> string \<Rightarrow> string \<Rightarrow> err + SsmTag option list"
  DeleteParameter_reply :: "call list \<Rightarrow> string \<Rightarrow> err option"
  PutParameter_reply :: "call list \<Rightarrow> PutParameterInput \<Rightarrow> err option"
  RemoveTagsFromResource_reply :: "call list \<Rightarrow> string \<Rightarrow> string \<Rightarrow> string set \<Rightarrow> err option"
  AddTagsToResource_reply ::
    "call list \<Rightarrow> string \<Rightarrow> string \<Rightarrow> (string, string) mapping \<Rightarrow> err option"
  Decrypt_reply :: "call list \<Rightarrow> string \<Rightarrow> string \<Rightarrow> err + string"
  IgnoreTagsConfig :: "IgnoreConfig option"

text \<open>
  What the Go libraries, which are not part of the repository, contribute to a run:
  \<^item> \<open>DecodeString\<close> is \<^verbatim>\<open>base64.StdEncoding.DecodeString\<close>;
  \<^item> \<open>attempts_within t\<close> is how many executions of the function given to
    \<^verbatim>\<open>resource.Retry\<close> complete inside a window of duration \<open>t\<close>;
  \<^item> \<open>timed_out last\<close> is the error \<^verbatim>\<open>resource.Retry\<close> returns when the window closes,
    given the error of the last retryable attempt (\<open>None\<close> when no attempt completed).
\<close>

record runtime =
  DecodeString :: "string \<Rightarrow> err + string"
  attempts_within :: "int \<Rightarrow> nat"
  timed_out :: "err option \<Rightarrow> err"

text \<open>
  \<^verbatim>\<open>schema.ResourceData\<close>: \<open>d_name d\<close> is \<^verbatim>\<open>d.Get("name")\<close>, and so on; \<^verbatim>\<open>d.Set\<close> and
  \<^verbatim>\<open>d.SetId\<close> update the record. \<open>d_overwrite\<close> is \<^verbatim>\<open>d.GetOkExists("overwrite")\<close>
  (\<open>None\<close> when the caller did not set it). \<open>d_description_old\<close> and \<open>d_tags_old\<close> are
  the first components of \<^verbatim>\<open>d.GetChange\<close>.
\<close>

record ResourceData =
  d_Id :: string
  d_IsNewResource :: bool
  d_name :: string
  d_description_old :: string
  d_description :: string
  d_tier :: string
  d_type :: string
  d_encrypted_value :: string
  d_encryption_key :: string
  d_arn :: string
  d_data_type :: string
  d_overwrite :: "bool option"
  d_allowed_pattern :: string
  d_version :: int
  d_tags_old :: tag_input
  d_tags :: tag_input

text \<open>What a Go function of type \<^verbatim>\<open>error\<close> does: it returns, or it panics.\<close>

datatype outcome = Return "err option" | Panic

section \<open>Calls\<close>

definition GetParameter_call ::
  "AWSClient \<Rightarrow> string \<Rightarrow> call list \<Rightarrow> Parameter option \<times> err option \<times> call list" where
  "GetParameter_call meta n log =
     (case GetParameter_reply meta log n of
        Inl e \<Rightarrow> (None, Some e, log @ [GetParameter n True])
      | Inr resp \<Rightarrow> (resp, None, log @ [GetParameter n True]))"

text \<open>
  \<^verbatim>\<open>kmsDecrypt\<close>: both branches of its error handling build \<^verbatim>\<open>errors.New\<close> of the
  error's text.
\<close>

definition kmsDecrypt ::
  "AWSClient \<Rightarrow> string \<Rightarrow> string \<Rightarrow> call list \<Rightarrow> (err + string) \<times> call list" where
  "kmsDecrypt meta keyId blob log =
     (case Decrypt_reply meta log keyId blob of
        Inl e \<Rightarrow> (Inl (ErrorText '''' e), log @ [Decrypt keyId blob])
      | Inr plaintext \<Rightarrow> (Inr plaintext, log @ [Decrypt keyId blob]))"

definition ResourceTypeForTaggingParameter :: string where
  "ResourceTypeForTaggingParameter = ''Parameter''"

definition ParameterTierStandard :: string where
  "ParameterTierStandard = ''Standard''"

definition ErrCodeParameterNotFound :: string where
  "ErrCodeParameterNotFound = ''ParameterNotFound''"

text \<open>
  \<^verbatim>\<open>SsmKeyValueTags\<close> and \<^verbatim>\<open>SsmListTags\<close>. A \<^verbatim>\<open>nil\<close> element of the tag list makes the
  loop panic; \<^verbatim>\<open>aws.StringValue\<close> reads a \<^verbatim>\<open>nil\<close> key as the empty string.
\<close>

definition SsmKeyValueTags :: "SsmTag option list \<Rightarrow> KeyValueTags option" where
  "SsmKeyValueTags ts =
     (if list_all (\<lambda>t. t \<noteq> None) ts
      then New (StringPtrMap
             (fold (\<lambda>t m. case t of
                             None \<Rightarrow> m
                           | Some tag \<Rightarrow>
                               Mapping.update
                                 (case Tag_Key tag of None \<Rightarrow> '''' | Some k \<Rightarrow> k)
                                 (Tag_Value tag) m)
                ts Mapping.empty))
      else None)"

definition SsmListTags ::
  "AWSClient \<Rightarrow> string \<Rightarrow> string \<Rightarrow> call list \<Rightarrow> (err + KeyValueTags option) \<times> call list" where
  "SsmListTags meta identifier resourceType log =
     (case ListTagsForResource_reply meta log identifier resourceType of
        Inl e \<Rightarrow> (Inl e, log @ [ListTagsForResource identifier resourceType])
      | Inr tagList \<Rightarrow>
          (Inr (SsmKeyValueTags tagList), log @ [ListTagsForResource identifier resourceType]))"

text \<open>
  \<^verbatim>\<open>SsmUpdateTags\<close>. Both length tests come before \<^verbatim>\<open>IgnoreAws\<close>, and the function
  returns as soon as the remove call fails.
\<close>

definition SsmUpdateTags ::
  "AWSClient \<Rightarrow> string \<Rightarrow> string \<Rightarrow> tag_input \<Rightarrow> tag_input \<Rightarrow> call list
     \<Rightarrow> outcome \<times> call list" where
  "SsmUpdateTags meta identifier resourceType oldTagsMap newTagsMap log =
     (case New oldTagsMap of
        None \<Rightarrow> (Panic, log)
      | Some oldTags \<Rightarrow>
     (case New newTagsMap of
        None \<Rightarrow> (Panic, log)
      | Some newTags \<Rightarrow>
     (case (if \<not> Mapping.is_empty (Removed oldTags newTags)
            then (RemoveTagsFromResource_reply meta log identifier resourceType
                    (Keys_tags (IgnoreAws (Removed oldTags newTags))),
                  log @ [RemoveTagsFromResource identifier resourceType
                           (Keys_tags (IgnoreAws (Removed oldTags newTags)))])
            else (None, log)) of
        (Some e, log1) \<Rightarrow>
          (Return (Some (WrapError (''error untagging resource ('' @ identifier @ ''): '') e)),
           log1)
      | (None, log1) \<Rightarrow>
          (if \<not> Mapping.is_empty (Updated oldTags newTags)
           then
             (case AddTagsToResource_reply meta log1 identifier resourceType
                     (SsmTags (IgnoreAws (Updated oldTags newTags))) of
                Some e \<Rightarrow>
                  (Return (Some (WrapError (''error tagging resource ('' @ identifier @ ''): '') e)),
                   log1 @ [AddTagsToResource identifier resourceType
                             (SsmTags (IgnoreAws (Updated oldTags newTags)))])
              | None \<Rightarrow>
                  (Return None,
                   log1 @ [AddTagsToResource identifier resourceType
                             (SsmTags (IgnoreAws (Updated oldTags newTags)))]))
           else (Return None, log1)))))"

definition shouldUpdateSsmParameter :: "ResourceData \<Rightarrow> bool" where
  "shouldUpdateSsmParameter d =
     (case d_overwrite d of
        Some v \<Rightarrow> v
      | None \<Rightarrow> \<not> d_IsNewResource d)"

section \<open>Read\<close>

text \<open>\<^verbatim>\<open>time.Duration\<close> counts nanoseconds.\<close>

definition Second :: int where
  "Second = 1000000000"

definition Minute :: int where
  "Minute = 60 * Second"

definition ssmParameterCreationValidationTimeout :: int where
  "ssmParameterCreationValidationTimeout = 2 * Minute"

datatype RetryError = RetryableError err | NonRetryableError err

text \<open>
  \<^verbatim>\<open>resource.Retry\<close> belongs to the plugin SDK. It runs the function again while the
  function reports a retryable error and the window is open; \<^verbatim>\<open>nil\<close> and a
  non-retryable error end it at once. The window is the number \<open>n\<close> of attempts that
  complete inside it, and what is returned when it closes is the parameter \<open>closed\<close>.
  The state \<open>s\<close> is what the function reads and writes outside itself.
\<close>

fun Retry ::
  "(err option \<Rightarrow> err) \<Rightarrow> nat \<Rightarrow> err option \<Rightarrow> ('s \<Rightarrow> RetryError option \<times> 's) \<Rightarrow> 's
     \<Rightarrow> err option \<times> 's" where
  "Retry closed 0 lastErr f s = (Some (closed lastErr), s)"
| "Retry closed (Suc n) lastErr f s =
     (case f s of
        (None, s') \<Rightarrow> (None, s')
      | (Some (NonRetryableError e), s') \<Rightarrow> (Some e, s')
      | (Some (RetryableError e), s') \<Rightarrow> Retry closed n (Some e) f s')"

text \<open>
  The function literal given to \<^verbatim>\<open>resource.Retry\<close> in Read. It assigns the captured
  \<^verbatim>\<open>resp\<close>, so the state is \<^verbatim>\<open>resp\<close> and the calls made so far.
\<close>

definition read_attempt ::
  "ResourceData \<Rightarrow> AWSClient \<Rightarrow> Parameter option \<times> call list
     \<Rightarrow> RetryError option \<times> Parameter option \<times> call list" where
  "read_attempt d meta s =
     (case GetParameter_call meta (d_Id d) (snd s) of
        (resp, err, log') \<Rightarrow>
          (if isAWSErr err ErrCodeParameterNotFound '''' \<and> d_IsNewResource d
               \<and> d_data_type d = ''aws:ec2:image''
           then (Some (RetryableError (ErrorString
                   (''error reading SSM Parameter ('' @ d_Id d @
                    '') after creation: this can indicate that the provided parameter value could not be validated by SSM''))),
                 resp, log')
           else (case err of
                   Some e \<Rightarrow> (Some (NonRetryableError e), resp, log')
                 | None \<Rightarrow> (None, resp, log'))))"

text \<open>The call of \<^verbatim>\<open>resource.Retry\<close>: \<^verbatim>\<open>resp\<close> starts as \<^verbatim>\<open>nil\<close>.\<close>

definition read_retry ::
  "ResourceData \<Rightarrow> AWSClient \<Rightarrow> runtime \<Rightarrow> call list \<Rightarrow> err option \<times> Parameter option \<times> call list" where
  "read_retry d meta rt log =
     Retry (timed_out rt) (attempts_within rt ssmParameterCreationValidationTimeout) None
       (read_attempt d meta) (None, log)"

text \<open>The statement \<^verbatim>\<open>if isResourceTimeoutError(err) { resp, err = ... }\<close>.\<close>

definition read_last_chance ::
  "ResourceData \<Rightarrow> AWSClient \<Rightarrow> err option \<times> Parameter option \<times> call list
     \<Rightarrow> Parameter option \<times> err option \<times> call list" where
  "read_last_chance d meta r =
     (case r of
        (err, resp, log) \<Rightarrow>
          (if isResourceTimeoutError err then GetParameter_call meta (d_Id d) log
           else (resp, err, log)))"

text \<open>
  From the tag listing to the end of Read. \<^verbatim>\<open>d.Set("tags", ...)\<close> is given a
  \<^verbatim>\<open>map[string]string\<close>, which the schema accepts.
\<close>

definition read_tags ::
  "ResourceData \<Rightarrow> AWSClient \<Rightarrow> string \<Rightarrow> Parameter \<Rightarrow> call list
     \<Rightarrow> outcome \<times> ResourceData \<times> call list" where
  "read_tags d meta n param log =
     (case SsmListTags meta n ResourceTypeForTaggingParameter log of
        (Inl e, log1) \<Rightarrow>
          (Return (Some (ErrorText (''error listing tags for SSM Parameter ('' @ n @ ''): '') e)),
           d, log1)
      | (Inr None, log1) \<Rightarrow> (Panic, d, log1)
      | (Inr (Some tags), log1) \<Rightarrow>
          (Return None,
           d\<lparr>d_tags := StringMap (Map_tags (IgnoreConfig (IgnoreAws tags) (IgnoreTagsConfig meta))),
             d_arn := (case Param_ARN param of None \<Rightarrow> '''' | Some a \<Rightarrow> a)\<rparr>,
           log1))"

text \<open>
  From the describe call to the tag listing. \<^verbatim>\<open>d.Set("key_id", ...)\<close> names a field the
  schema does not have and changes nothing.
\<close>

definition read_describe ::
  "ResourceData \<Rightarrow> AWSClient \<Rightarrow> string \<Rightarrow> Parameter \<Rightarrow> call list
     \<Rightarrow> outcome \<times> ResourceData \<times> call list" where
  "read_describe d meta n param log =
     (case DescribeParameters_reply meta log n of
        Inl e \<Rightarrow>
          (Return (Some (ErrorText ''error describing SSM parameter: '' e)),
           d, log @ [DescribeParameters n])
      | Inr describeResp \<Rightarrow>
          (case describeResp of
             None \<Rightarrow> (Return None, d\<lparr>d_Id := ''''\<rparr>, log @ [DescribeParameters n])
           | Some [] \<Rightarrow> (Return None, d\<lparr>d_Id := ''''\<rparr>, log @ [DescribeParameters n])
           | Some (None # rest) \<Rightarrow> (Return None, d\<lparr>d_Id := ''''\<rparr>, log @ [DescribeParameters n])
           | Some (Some detail # rest) \<Rightarrow>
               read_tags
                 (d\<lparr>d_description := (case Meta_Description detail of None \<Rightarrow> '''' | Some x \<Rightarrow> x),
                    d_tier := (case Meta_Tier detail of None \<Rightarrow> ParameterTierStandard | Some x \<Rightarrow> x),
                    d_allowed_pattern :=
                      (case Meta_AllowedPattern detail of None \<Rightarrow> '''' | Some x \<Rightarrow> x),
                    d_data_type := (case Meta_DataType detail of None \<Rightarrow> '''' | Some x \<Rightarrow> x)\<rparr>)
                 meta n param (log @ [DescribeParameters n])))"

text \<open>
  From the decoding of the declared ciphertext to the describe call: the comparison
  that chooses the observed \<^verbatim>\<open>encrypted_value\<close>.
\<close>

definition read_value ::
  "ResourceData \<Rightarrow> AWSClient \<Rightarrow> runtime \<Rightarrow> string \<Rightarrow> string \<Rightarrow> Parameter \<Rightarrow> call list
     \<Rightarrow> outcome \<times> ResourceData \<times> call list" where
  "read_value d meta rt n encValue param log =
     (case DecodeString rt (d_encrypted_value d) of
        Inl e \<Rightarrow> (Return (Some e), d, log)
      | Inr base64Blob \<Rightarrow>
          (case kmsDecrypt meta (d_encryption_key d) base64Blob log of
             (Inl e, log1) \<Rightarrow>
               (Return (Some (ErrorText ''Error decrypting with KMS: '' e)), d, log1)
           | (Inr plaintext, log1) \<Rightarrow>
               read_describe
                 (d\<lparr>d_name := n,
                    d_type := (case Param_Type param of None \<Rightarrow> '''' | Some x \<Rightarrow> x),
                    d_encrypted_value :=
                      (if plaintext = encValue then d_encrypted_value d
                       else ''Outdated sensitive value''),
                    d_version := (case Param_Version param of None \<Rightarrow> 0 | Some x \<Rightarrow> x)\<rparr>)
                 meta n param log1))"

text \<open>
  Read after the fetch: the tolerated not-found, the fatal fetch error, and the
  dereferences of \<^verbatim>\<open>resp.Parameter\<close>, \<^verbatim>\<open>param.Name\<close> and \<^verbatim>\<open>param.Value\<close>.
\<close>

definition read_found ::
  "ResourceData \<Rightarrow> AWSClient \<Rightarrow> runtime \<Rightarrow> Parameter option \<times> err option \<times> call list
     \<Rightarrow> outcome \<times> ResourceData \<times> call list" where
  "read_found d meta rt r =
     (case r of
        (resp, err, log) \<Rightarrow>
          (if isAWSErr err ErrCodeParameterNotFound '''' \<and> \<not> d_IsNewResource d
           then (Return None, d\<lparr>d_Id := ''''\<rparr>, log)
           else
             (case err of
                Some e \<Rightarrow>
                  (Return (Some (WrapError (''error reading SSM Parameter ('' @ d_Id d @ ''): '') e)),
                   d, log)
              | None \<Rightarrow>
                  (case resp of
                     None \<Rightarrow> (Panic, d, log)
                   | Some param \<Rightarrow>
                       (case Param_Name param of
                          None \<Rightarrow> (Panic, d, log)
                        | Some n \<Rightarrow>
                            (case Param_Value param of
                               None \<Rightarrow> (Panic, d, log)
                             | Some encValue \<Rightarrow> read_value d meta rt n encValue param log))))))"

definition resourceAwsSsmParameterRead ::
  "ResourceData \<Rightarrow> AWSClient \<Rightarrow> runtime \<Rightarrow> call list \<Rightarrow> outcome \<times> ResourceData \<times> call list" where
  "resourceAwsSsmParameterRead d meta rt log =
     read_found d meta rt (read_last_chance d meta (read_retry d meta rt log))"

section \<open>Delete and Put\<close>

definition resourceAwsSsmParameterDelete ::
  "ResourceData \<Rightarrow> AWSClient \<Rightarrow> call list \<Rightarrow> outcome \<times> ResourceData \<times> call list" where
  "resourceAwsSsmParameterDelete d meta log =
     (case DeleteParameter_reply meta log (d_name d) of
        Some e \<Rightarrow>
          (Return (Some (ErrorText (''error deleting SSM Parameter ('' @ d_Id d @ ''): '') e)),
           d, log @ [DeleteParameter (d_name d)])
      | None \<Rightarrow> (Return None, d, log @ [DeleteParameter (d_name d)]))"

text \<open>
  The write request of Put. \<^verbatim>\<open>d.GetOk("data_type")\<close> is true for a non-empty string,
  and \<^verbatim>\<open>d.HasChange("description")\<close> compares the old and the new description.
\<close>

definition put_input :: "ResourceData \<Rightarrow> string \<Rightarrow> PutParameterInput" where
  "put_input d plaintext =
     \<lparr>Put_Name = d_name d,
      Put_Type = d_type d,
      Put_Tier = Some (d_tier d),
      Put_Value = plaintext,
      Put_Overwrite = shouldUpdateSsmParameter d,
      Put_AllowedPattern = d_allowed_pattern d,
      Put_DataType = (if d_data_type d \<noteq> '''' then Some (d_data_type d) else None),
      Put_Description =
        (if d_description_old d \<noteq> d_description d then Some (d_description d) else None),
      Put_KeyId = d_encryption_key d\<rparr>"

text \<open>The write and its one retry without a tier.\<close>

definition put_write ::
  "AWSClient \<Rightarrow> PutParameterInput \<Rightarrow> call list \<Rightarrow> err option \<times> call list" where
  "put_write meta paramInput log =
     (if isAWSErr (PutParameter_reply meta log paramInput)
           ''ValidationException'' ''Tier is not supported''
      then (PutParameter_reply meta (log @ [PutParameter paramInput])
              (paramInput\<lparr>Put_Tier := None\<rparr>),
            log @ [PutParameter paramInput, PutParameter (paramInput\<lparr>Put_Tier := None\<rparr>)])
      else (PutParameter_reply meta log paramInput, log @ [PutParameter paramInput]))"

text \<open>Put after a successful write: the tags, the identifier, the trailing Read.\<close>

definition put_finish ::
  "ResourceData \<Rightarrow> AWSClient \<Rightarrow> runtime \<Rightarrow> call list \<Rightarrow> outcome \<times> ResourceData \<times> call list" where
  "put_finish d meta rt log =
     (case (if d_tags_old d \<noteq> d_tags d
            then SsmUpdateTags meta (d_name d) ResourceTypeForTaggingParameter
                   (d_tags_old d) (d_tags d) log
            else (Return None, log)) of
        (Panic, log1) \<Rightarrow> (Panic, d, log1)
      | (Return (Some e), log1) \<Rightarrow>
          (Return (Some (ErrorText (''error updating SSM Parameter ('' @ d_name d @ '') tags: '') e)),
           d, log1)
      | (Return None, log1) \<Rightarrow> resourceAwsSsmParameterRead (d\<lparr>d_Id := d_name d\<rparr>) meta rt log1)"

definition resourceAwsSsmParameterPut ::
  "ResourceData \<Rightarrow> AWSClient \<Rightarrow> runtime \<Rightarrow> call list \<Rightarrow> outcome \<times> ResourceData \<times> call list" where
  "resourceAwsSsmParameterPut d meta rt log =
     (case DecodeString rt (d_encrypted_value d) of
        Inl e \<Rightarrow> (Return (Some e), d, log)
      | Inr base64Blob \<Rightarrow>
          (case kmsDecrypt meta (d_encryption_key d) base64Blob log of
             (Inl e, log1) \<Rightarrow>
               (Return (Some (ErrorText ''Error decrypting with KMS: '' e)), d, log1)
           | (Inr plaintext, log1) \<Rightarrow>
               (case put_write meta (put_input d plaintext) log1 of
                  (Some e, log2) \<Rightarrow>
                    (Return (Some (ErrorText ''error creating SSM parameter: '' e)), d, log2)
                | (None, log2) \<Rightarrow> put_finish d meta rt log2)))"

section \<open>Reading the list of calls\<close>

fun is_fetch :: "call \<Rightarrow> bool" where
  "is_fetch (GetParameter n w) = True"
| "is_fetch c = False"

fun is_write :: "call \<Rightarrow> bool" where
  "is_write (PutParameter p) = True"
| "is_write c = False"

text \<open>The calls made between the list \<open>log\<close> and the later list \<open>log'\<close>.\<close>

definition issued :: "call list \<Rightarrow> call list \<Rightarrow> call list" where
  "issued log log' = drop (length log) log'"

section \<open>A concrete run\<close>

text \<open>
  One parameter \<^verbatim>\<open>/a/b\<close> whose stored plaintext is \<^verbatim>\<open>secret\<close>, services that answer
  every call without an error, and a declaration whose ciphertext decrypts to the
  stored plaintext. The decoder knows the one declared blob. When the retry window
  closes, this runtime reports the last retryable error if there is one and a timeout
  without a last error otherwise.
\<close>

definition ex_old :: KeyValueTags where
  "ex_old =
     Mapping.update ''a'' (tag_of_string ''1'')
       (Mapping.update ''b'' (tag_of_string ''2'') Mapping.empty)"

definition ex_new :: KeyValueTags where
  "ex_new =
     Mapping.update ''b'' (tag_of_string ''3'')
       (Mapping.update ''c'' (tag_of_string ''4'') Mapping.empty)"

definition ex_param :: Parameter where
  "ex_param =
     \<lparr>Param_Name = Some ''/a/b'', Param_Value = Some ''secret'',
      Param_Type = Some ''SecureString'', Param_Version = Some 1,
      Param_ARN = Some ''arn:aws:ssm:eu-west-1:1:parameter/a/b''\<rparr>"

definition ex_detail :: ParameterMetadata where
  "ex_detail =
     \<lparr>Meta_KeyId = Some ''alias/k'', Meta_Description = None, Meta_Tier = None,
      Meta_AllowedPattern = None, Meta_DataType = Some ''text''\<rparr>"

definition ex_meta :: AWSClient where
  "ex_meta =
     \<lparr>GetParameter_reply = (\<lambda>log n. Inr (Some ex_param)),
      DescribeParameters_reply = (\<lambda>log n. Inr (Some [Some ex_detail])),
      ListTagsForResource_reply = (\<lambda>log i r. Inr []),
      DeleteParameter_reply = (\<lambda>log n. None),
      PutParameter_reply = (\<lambda>log p. None),
      RemoveTagsFromResource_reply = (\<lambda>log i r ks. None),
      AddTagsToResource_reply = (\<lambda>log i r ts. None),
      Decrypt_reply = (\<lambda>log k b. Inr ''secret''),
      IgnoreTagsConfig = None\<rparr>"

definition ex_rt :: runtime where
  "ex_rt =
     \<lparr>DecodeString =
        (\<lambda>s. if s = ''Y2lwaGVy'' then Inr ''cipher''
             else Inl (ErrorString ''illegal base64 data'')),
      attempts_within = (\<lambda>t. 2),
      timed_out = (\<lambda>lastErr. case lastErr of None \<Rightarrow> TimeoutError None | Some e \<Rightarrow> e)\<rparr>"

definition ex_d :: ResourceData where
  "ex_d =
     \<lparr>d_Id = ''/a/b'', d_IsNewResource = False, d_name = ''/a/b'',
      d_description_old = '''', d_description = '''', d_tier = ''Standard'',
      d_type = ''SecureString'', d_encrypted_value = ''Y2lwaGVy'',
      d_encryption_key = ''alias/k'', d_arn = '''', d_data_type = ''text'',
      d_overwrite = None, d_allowed_pattern = '''', d_version = 0,
      d_tags_old = OtherInput, d_tags = OtherInput\<rparr>"

text \<open>A newly created machine-image parameter, and a store that never finds it.\<close>

definition ex_d_image :: ResourceData where
  "ex_d_image = ex_d\<lparr>d_IsNewResource := True, d_data_type := ''aws:ec2:image''\<rparr>"

definition ex_meta_absent :: AWSClient where
  "ex_meta_absent =
     ex_meta\<lparr>GetParameter_reply := (\<lambda>log n. Inl (AwsErr ''ParameterNotFound'' ''''))\<rparr>"

text \<open>The tag maps as Put reads them from the declaration, before and after a change.\<close>

definition ex_tags_before :: tag_input where
  "ex_tags_before =
     InterfaceMap
       (Mapping.update ''a'' (IfString ''1'')
          (Mapping.update ''b'' (IfString ''2'') Mapping.empty))"

definition ex_tags_after :: tag_input where
  "ex_tags_after =
     InterfaceMap
       (Mapping.update ''b'' (IfString ''3'')
          (Mapping.update ''c'' (IfString ''4'') Mapping.empty))"

text \<open>The declaration of the run with its tags changed.\<close>

definition ex_d_retag :: ResourceData where
  "ex_d_retag = ex_d\<lparr>d_tags_old := ex_tags_before, d_tags := ex_tags_after\<rparr>"

text \<open>The errors the examples let the services return.\<close>

definition ex_not_found :: err where
  "ex_not_found = AwsErr ''ParameterNotFound'' ''''"

definition ex_denied :: err where
  "ex_denied = AwsErr ''AccessDeniedException'' ''not authorized to decrypt''"

definition ex_tier :: err where
  "ex_tier = AwsErr ''ValidationException'' ''Tier is not supported for this parameter''"

text \<open>A store that rejects every write that names a tier.\<close>

definition ex_meta_tier :: AWSClient where
  "ex_meta_tier =
     ex_meta\<lparr>PutParameter_reply :=
       (\<lambda>log p. if Put_Tier p = None then None else Some ex_tier)\<rparr>"

section \<open>Properties of the tag set model\<close>

lemma Equal_iff: "Equal a b \<longleftrightarrow> a = b"
  by (cases a; cases b) auto

lemma lookup_Removed:
  "Mapping.lookup (Removed old new) k =
     (if Mapping.lookup new k = None then Mapping.lookup old k else None)"
  by (simp add: Removed_def Mapping.lookup_filter split: option.splits)

lemma lookup_Updated:
  "Mapping.lookup (Updated old new) k =
     (case Mapping.lookup new k of
        None \<Rightarrow> None
      | Some newV \<Rightarrow> if Mapping.lookup old k = Some newV then None else Some newV)"
  by (auto simp: Updated_def Mapping.lookup_filter Equal_iff split: option.splits)

lemma keys_Removed: "Mapping.keys (Removed old new) = Mapping.keys old - Mapping.keys new"
  by (auto simp: keys_dom_lookup lookup_Removed split: if_splits)

lemma keys_Updated:
  "Mapping.keys (Updated old new) =
     {k \<in> Mapping.keys new. Mapping.lookup old k \<noteq> Mapping.lookup new k}"
  by (auto simp: keys_dom_lookup lookup_Updated split: option.splits if_splits)

lemma Removed_same: "Mapping.is_empty (Removed tags tags)"
  by (simp add: Mapping.is_empty_def keys_Removed)

lemma Updated_same: "Mapping.is_empty (Updated tags tags)"
  by (simp add: Mapping.is_empty_def keys_Updated)

text \<open>
  Claim C6. For all tag maps \<open>old\<close> and \<open>new\<close>: \<open>Removed old new\<close> holds exactly the keys
  of \<open>old\<close> that are absent from \<open>new\<close>, each with the value it has in \<open>old\<close>;
  \<open>Updated old new\<close> holds exactly the keys of \<open>new\<close> that are absent from \<open>old\<close> or
  whose tag data in \<open>old\<close> is not \<open>Equal\<close> to the one in \<open>new\<close>, each with the value it
  has in \<open>new\<close>; and two tag data are \<open>Equal\<close> exactly when they agree in the
  additional boolean fields, the additional string fields and the value.
\<close>

theorem C6_removed_updated_exact:
  "Mapping.keys (Removed old new) = {k \<in> Mapping.keys old. k \<notin> Mapping.keys new}
   \<and> (\<forall>k. k \<in> Mapping.keys (Removed old new) \<longrightarrow>
          Mapping.lookup (Removed old new) k = Mapping.lookup old k)
   \<and> Mapping.keys (Updated old new) =
       {k \<in> Mapping.keys new.
          k \<notin> Mapping.keys old
          \<or> (\<exists>oldV newV. Mapping.lookup old k = Some oldV \<and> Mapping.lookup new k = Some newV
                \<and> \<not> Equal oldV newV)}
   \<and> (\<forall>k. k \<in> Mapping.keys (Updated old new) \<longrightarrow>
          Mapping.lookup (Updated old new) k = Mapping.lookup new k)
   \<and> (\<forall>td other. Equal (Some td) (Some other) \<longleftrightarrow>
          Value td = Value other
          \<and> AdditionalBoolFields td = AdditionalBoolFields other
          \<and> AdditionalStringFields td = AdditionalStringFields other)
   \<and> (\<forall>td. \<not> Equal None (Some td) \<and> \<not> Equal (Some td) None) \<and> Equal None None"
proof (intro conjI)
  show "Mapping.keys (Removed old new) = {k \<in> Mapping.keys old. k \<notin> Mapping.keys new}"
    by (auto simp: keys_Removed)
  show "\<forall>k. k \<in> Mapping.keys (Removed old new) \<longrightarrow>
          Mapping.lookup (Removed old new) k = Mapping.lookup old k"
    by (auto simp: keys_dom_lookup lookup_Removed split: if_splits)
  show "Mapping.keys (Updated old new) =
       {k \<in> Mapping.keys new.
          k \<notin> Mapping.keys old
          \<or> (\<exists>oldV newV. Mapping.lookup old k = Some oldV \<and> Mapping.lookup new k = Some newV
                \<and> \<not> Equal oldV newV)}"
    unfolding keys_Updated by (auto simp: keys_dom_lookup Equal_iff)
  show "\<forall>k. k \<in> Mapping.keys (Updated old new) \<longrightarrow>
          Mapping.lookup (Updated old new) k = Mapping.lookup new k"
    by (auto simp: keys_dom_lookup lookup_Updated split: option.splits if_splits)
  show "\<forall>td other. Equal (Some td) (Some other) \<longleftrightarrow>
          Value td = Value other
          \<and> AdditionalBoolFields td = AdditionalBoolFields other
          \<and> AdditionalStringFields td = AdditionalStringFields other"
    by auto
  show "\<forall>td. \<not> Equal None (Some td) \<and> \<not> Equal (Some td) None"
    by simp
  show "Equal None None"
    by simp
qed

theorem C6_removed_updated_exact_witness:
  "Mapping.keys (Removed ex_old ex_new) = {''a''}
   \<and> Mapping.lookup (Removed ex_old ex_new) ''a'' = Some (tag_of_string ''1'')
   \<and> Mapping.keys (Updated ex_old ex_new) = {''b'', ''c''}
   \<and> Mapping.lookup (Updated ex_old ex_new) ''b'' = Some (tag_of_string ''3'')"
  using C6_removed_updated_exact[of ex_old ex_new]
  by (auto simp: ex_old_def ex_new_def tag_of_string_def Mapping.lookup_update')

section \<open>The calls of Read and Put\<close>

text \<open>
  Each step appends its calls to the list it is given. The retry appends fetches only,
  the rest of Read appends neither a fetch nor a write, and the tag update appends only
  tag calls.
\<close>

lemma issued_append [simp]: "issued log (log @ xs) = xs"
  by (simp add: issued_def)

lemma GetParameter_call_log:
  "snd (snd (GetParameter_call meta n log)) = log @ [GetParameter n True]"
  by (simp add: GetParameter_call_def split: sum.splits)

lemma read_attempt_log:
  "snd (snd (read_attempt d meta s)) = snd s @ [GetParameter (d_Id d) True]"
  by (auto simp: read_attempt_def GetParameter_call_def split: sum.splits option.splits prod.splits)

lemma Retry_read_attempt_log:
  "\<exists>k\<le>n. snd (snd (Retry closed n lastErr (read_attempt d meta) s)) =
             snd s @ replicate k (GetParameter (d_Id d) True)"
proof (induction n arbitrary: lastErr s)
  case 0
  then show ?case by simp
next
  case (Suc n)
  obtain r s' where f: "read_attempt d meta s = (r, s')"
    by (cases "read_attempt d meta s")
  have s': "snd s' = snd s @ [GetParameter (d_Id d) True]"
    using read_attempt_log[of d meta s] f by simp
  show ?case
  proof (cases r)
    case None
    with f s' show ?thesis
      by (auto intro!: exI[of _ 1])
  next
    case (Some re)
    show ?thesis
    proof (cases re)
      case (NonRetryableError e)
      with Some f s' show ?thesis by (auto intro!: exI[of _ 1])
    next
      case (RetryableError e)
      from Suc.IH[of "Some e" s'] obtain k where k: "k \<le> n"
        "snd (snd (Retry closed n (Some e) (read_attempt d meta) s')) =
           snd s' @ replicate k (GetParameter (d_Id d) True)" by blast
      with RetryableError Some f s' show ?thesis
        by (auto intro!: exI[of _ "Suc k"] simp: replicate_app_Cons_same)
    qed
  qed
qed

lemma read_retry_log:
  "\<exists>k. snd (snd (read_retry d meta rt log)) = log @ replicate k (GetParameter (d_Id d) True)"
  using Retry_read_attempt_log[of _ "timed_out rt" None d meta "(None, log)"]
  by (auto simp: read_retry_def)

lemma read_last_chance_log:
  "\<exists>xs. snd (snd (read_last_chance d meta (err, resp, log))) = log @ xs
        \<and> (\<forall>c\<in>set xs. \<not> is_write c)"
  by (auto simp: read_last_chance_def GetParameter_call_log)

lemma read_tags_log:
  "snd (snd (read_tags d meta n param log)) =
     log @ [ListTagsForResource n ResourceTypeForTaggingParameter]"
  by (auto simp: read_tags_def SsmListTags_def split: sum.splits option.splits prod.splits)

lemma read_describe_log:
  "\<exists>xs. snd (snd (read_describe d meta n param log)) = log @ xs
        \<and> (\<forall>c\<in>set xs. \<not> is_fetch c \<and> \<not> is_write c)"
  by (auto simp: read_describe_def read_tags_log split: sum.splits option.splits list.splits)

lemma read_value_log:
  "\<exists>xs. snd (snd (read_value d meta rt n encValue param log)) = log @ xs
        \<and> (\<forall>c\<in>set xs. \<not> is_fetch c \<and> \<not> is_write c)"
proof (cases "DecodeString rt (d_encrypted_value d)")
  case (Inl e)
  then show ?thesis by (simp add: read_value_def)
next
  case (Inr blob)
  show ?thesis
  proof (cases "Decrypt_reply meta log (d_encryption_key d) blob")
    case (Inl e)
    with Inr show ?thesis by (simp add: read_value_def kmsDecrypt_def)
  next
    case r: (Inr plaintext)
    let ?d = "d\<lparr>d_name := n,
                d_type := (case Param_Type param of None \<Rightarrow> '''' | Some x \<Rightarrow> x),
                d_encrypted_value :=
                  (if plaintext = encValue then d_encrypted_value d
                   else ''Outdated sensitive value''),
                d_version := (case Param_Version param of None \<Rightarrow> 0 | Some x \<Rightarrow> x)\<rparr>"
    obtain xs where
      "snd (snd (read_describe ?d meta n param (log @ [Decrypt (d_encryption_key d) blob]))) =
         (log @ [Decrypt (d_encryption_key d) blob]) @ xs"
      "\<forall>c\<in>set xs. \<not> is_fetch c \<and> \<not> is_write c"
      using read_describe_log by blast
    with Inr r show ?thesis
      by (auto simp: read_value_def kmsDecrypt_def
            intro!: exI[of _ "Decrypt (d_encryption_key d) blob # xs"])
  qed
qed

lemma read_found_log:
  "\<exists>xs. snd (snd (read_found d meta rt (resp, err, log))) = log @ xs
        \<and> (\<forall>c\<in>set xs. \<not> is_fetch c \<and> \<not> is_write c)"
  using read_value_log
  by (auto simp: read_found_def split: option.splits)

lemma Read_log:
  "\<exists>xs. snd (snd (resourceAwsSsmParameterRead d meta rt log)) = log @ xs
        \<and> (\<forall>c\<in>set xs. \<not> is_write c)"
proof -
  obtain err resp log1 where r: "read_retry d meta rt log = (err, resp, log1)"
    by (cases "read_retry d meta rt log") auto
  obtain k where k: "log1 = log @ replicate k (GetParameter (d_Id d) True)"
    using read_retry_log[of d meta rt log] r by auto
  obtain resp2 err2 log2 where l: "read_last_chance d meta (err, resp, log1) = (resp2, err2, log2)"
    by (cases "read_last_chance d meta (err, resp, log1)") auto
  obtain ys where ys: "log2 = log1 @ ys" "\<forall>c\<in>set ys. \<not> is_write c"
    using read_last_chance_log[of d meta err resp log1] l by auto
  obtain zs where zs: "snd (snd (read_found d meta rt (resp2, err2, log2))) = log2 @ zs"
    "\<forall>c\<in>set zs. \<not> is_fetch c \<and> \<not> is_write c"
    using read_found_log by blast
  have "snd (snd (resourceAwsSsmParameterRead d meta rt log)) =
          log @ (replicate k (GetParameter (d_Id d) True) @ ys @ zs)"
    using r l k ys zs by (simp add: resourceAwsSsmParameterRead_def)
  moreover have "\<forall>c\<in>set (replicate k (GetParameter (d_Id d) True) @ ys @ zs). \<not> is_write c"
    using ys zs by auto
  ultimately show ?thesis by blast
qed

lemma SsmUpdateTags_log:
  "\<exists>xs. snd (SsmUpdateTags meta i r old new log) = log @ xs
        \<and> (\<forall>c\<in>set xs. \<not> is_fetch c \<and> \<not> is_write c)"
  by (auto simp: SsmUpdateTags_def split: option.splits)

lemma put_finish_log:
  "\<exists>xs. snd (snd (put_finish d meta rt log)) = log @ xs \<and> (\<forall>c\<in>set xs. \<not> is_write c)"
proof (cases "d_tags_old d \<noteq> d_tags d")
  case False
  then show ?thesis
    using Read_log[of "d\<lparr>d_Id := d_name d\<rparr>" meta rt log] by (simp add: put_finish_def)
next
  case True
  obtain out log1 where u:
    "SsmUpdateTags meta (d_name d) ResourceTypeForTaggingParameter (d_tags_old d) (d_tags d) log =
       (out, log1)"
    by (cases "SsmUpdateTags meta (d_name d) ResourceTypeForTaggingParameter
                 (d_tags_old d) (d_tags d) log") auto
  obtain xs where xs: "log1 = log @ xs" "\<forall>c\<in>set xs. \<not> is_fetch c \<and> \<not> is_write c"
    using SsmUpdateTags_log[of meta "d_name d" ResourceTypeForTaggingParameter
            "d_tags_old d" "d_tags d" log] u by auto
  obtain ys where ys:
    "snd (snd (resourceAwsSsmParameterRead (d\<lparr>d_Id := d_name d\<rparr>) meta rt log1)) = log1 @ ys"
    "\<forall>c\<in>set ys. \<not> is_write c"
    using Read_log by blast
  show ?thesis
  proof (cases out)
    case Panic
    with True u xs show ?thesis by (auto simp: put_finish_def)
  next
    case (Return e)
    show ?thesis
    proof (cases e)
      case None
      have "snd (snd (put_finish d meta rt log)) = log @ (xs @ ys)"
        using True u Return None xs ys by (simp add: put_finish_def)
      moreover have "\<forall>c\<in>set (xs @ ys). \<not> is_write c" using xs ys by auto
      ultimately show ?thesis by blast
    next
      case (Some a)
      with Return True u xs show ?thesis by (auto simp: put_finish_def)
    qed
  qed
qed

lemma put_write_log:
  "\<exists>xs. snd (put_write meta p log) = log @ xs
     \<and> (xs = [PutParameter p] \<or> xs = [PutParameter p, PutParameter (p\<lparr>Put_Tier := None\<rparr>)])"
  by (simp add: put_write_def)

lemma Put_log:
  "\<exists>xs. snd (snd (resourceAwsSsmParameterPut d meta rt log)) = log @ xs
     \<and> (\<forall>c\<in>set xs. is_write c \<longrightarrow>
           (\<exists>pt. c = PutParameter (put_input d pt)
                \<or> c = PutParameter ((put_input d pt)\<lparr>Put_Tier := None\<rparr>)))"
proof (cases "DecodeString rt (d_encrypted_value d)")
  case (Inl e)
  then show ?thesis by (simp add: resourceAwsSsmParameterPut_def)
next
  case (Inr blob)
  show ?thesis
  proof (cases "Decrypt_reply meta log (d_encryption_key d) blob")
    case (Inl e)
    with Inr show ?thesis by (simp add: resourceAwsSsmParameterPut_def kmsDecrypt_def)
  next
    case r: (Inr pt)
    let ?log1 = "log @ [Decrypt (d_encryption_key d) blob]"
    obtain e log2 where w: "put_write meta (put_input d pt) ?log1 = (e, log2)"
      by (cases "put_write meta (put_input d pt) ?log1") auto
    obtain xs where xs: "log2 = ?log1 @ xs"
      "xs = [PutParameter (put_input d pt)]
       \<or> xs = [PutParameter (put_input d pt), PutParameter ((put_input d pt)\<lparr>Put_Tier := None\<rparr>)]"
      using put_write_log[of meta "put_input d pt" ?log1] w by auto
    obtain ys where ys: "snd (snd (put_finish d meta rt log2)) = log2 @ ys"
      "\<forall>c\<in>set ys. \<not> is_write c"
      using put_finish_log by blast
    show ?thesis
    proof (cases e)
      case (Some a)
      have "snd (snd (resourceAwsSsmParameterPut d meta rt log)) =
              log @ (Decrypt (d_encryption_key d) blob # xs)"
        using Inr r w Some xs by (simp add: resourceAwsSsmParameterPut_def kmsDecrypt_def)
      moreover have "\<forall>c\<in>set (Decrypt (d_encryption_key d) blob # xs). is_write c \<longrightarrow>
           (\<exists>pt. c = PutParameter (put_input d pt)
                \<or> c = PutParameter ((put_input d pt)\<lparr>Put_Tier := None\<rparr>))"
        using xs by auto
      ultimately show ?thesis by blast
    next
      case None
      have "snd (snd (resourceAwsSsmParameterPut d meta rt log)) =
              log @ (Decrypt (d_encryption_key d) blob # xs @ ys)"
        using Inr r w None xs ys by (simp add: resourceAwsSsmParameterPut_def kmsDecrypt_def)
      moreover have "\<forall>c\<in>set (Decrypt (d_encryption_key d) blob # xs @ ys). is_write c \<longrightarrow>
           (\<exists>pt. c = PutParameter (put_input d pt)
                \<or> c = PutParameter ((put_input d pt)\<lparr>Put_Tier := None\<rparr>))"
        using xs ys by auto
      ultimately show ?thesis by blast
    qed
  qed
qed

lemma Put_first_write:
  assumes "DecodeString rt (d_encrypted_value d) = Inr blob"
    and "Decrypt_reply meta log (d_encryption_key d) blob = Inr pt"
  shows "PutParameter (put_input d pt) \<in> set (issued log (snd (snd (resourceAwsSsmParameterPut d meta rt log))))"
proof -
  let ?log1 = "log @ [Decrypt (d_encryption_key d) blob]"
  obtain e log2 where w: "put_write meta (put_input d pt) ?log1 = (e, log2)"
    by (cases "put_write meta (put_input d pt) ?log1") auto
  obtain xs where xs: "log2 = ?log1 @ xs"
    "xs = [PutParameter (put_input d pt)]
     \<or> xs = [PutParameter (put_input d pt), PutParameter ((put_input d pt)\<lparr>Put_Tier := None\<rparr>)]"
    using put_write_log[of meta "put_input d pt" ?log1] w by auto
  obtain ys where ys: "snd (snd (put_finish d meta rt log2)) = log2 @ ys"
    using put_finish_log by blast
  have "\<exists>zs. snd (snd (resourceAwsSsmParameterPut d meta rt log)) =
          log @ (Decrypt (d_encryption_key d) blob # xs @ zs)"
  proof (cases e)
    case None
    then show ?thesis using assms w xs ys
      by (simp add: resourceAwsSsmParameterPut_def kmsDecrypt_def)
  next
    case (Some a)
    then show ?thesis using assms w xs
      by (simp add: resourceAwsSsmParameterPut_def kmsDecrypt_def)
  qed
  then obtain zs where "snd (snd (resourceAwsSsmParameterPut d meta rt log)) =
          log @ (Decrypt (d_encryption_key d) blob # xs @ zs)" by blast
  then show ?thesis using xs by auto
qed

lemma filter_no_write: "\<forall>c\<in>set xs. \<not> is_write c \<Longrightarrow> filter is_write xs = []"
  by (induction xs) auto

lemma filter_no_fetch: "\<forall>c\<in>set xs. \<not> is_fetch c \<Longrightarrow> filter is_fetch xs = []"
  by (induction xs) auto

lemma put_finish_writes:
  "filter is_write (issued log (snd (snd (put_finish d meta rt (log @ xs))))) = filter is_write xs"
proof -
  obtain ys where ys: "snd (snd (put_finish d meta rt (log @ xs))) = (log @ xs) @ ys"
    "\<forall>c\<in>set ys. \<not> is_write c"
    using put_finish_log by blast
  then show ?thesis by (simp add: issued_def filter_no_write)
qed

lemma isAWSErr_not_timeout: "isAWSErr err code message \<Longrightarrow> \<not> isResourceTimeoutError err"
proof (cases err)
  case None
  then show ?thesis by (simp add: isResourceTimeoutError_def)
next
  case (Some e)
  assume "isAWSErr err code message"
  with Some have "as_awserr e \<noteq> None"
    by (auto simp: isAWSErr_def split: option.splits)
  then have "e \<noteq> TimeoutError None" by auto
  with Some show ?thesis
    by (cases e) (auto simp: isResourceTimeoutError_def)
qed

section \<open>The observed value\<close>

lemma read_tags_value:
  "d_encrypted_value (fst (snd (read_tags d meta n param log))) = d_encrypted_value d"
  by (auto simp: read_tags_def split: sum.splits option.splits prod.splits)

lemma read_describe_value:
  "d_encrypted_value (fst (snd (read_describe d meta n param log))) = d_encrypted_value d"
  by (auto simp: read_describe_def read_tags_value split: sum.splits option.splits list.splits)

lemma read_value_observed:
  "d_encrypted_value (fst (snd (read_value d meta rt n encValue param log))) =
     (case DecodeString rt (d_encrypted_value d) of
        Inl e \<Rightarrow> d_encrypted_value d
      | Inr blob \<Rightarrow>
          (case Decrypt_reply meta log (d_encryption_key d) blob of
             Inl e \<Rightarrow> d_encrypted_value d
           | Inr plaintext \<Rightarrow>
               if plaintext = encValue then d_encrypted_value d
               else ''Outdated sensitive value''))"
  by (auto simp: read_value_def kmsDecrypt_def read_describe_value split: sum.splits)

lemma read_found_observed:
  "d_encrypted_value (fst (snd (read_found d meta rt r))) = d_encrypted_value d
   \<or> d_encrypted_value (fst (snd (read_found d meta rt r))) = ''Outdated sensitive value''"
  by (auto simp: read_found_def read_value_observed split: option.splits sum.splits prod.splits)

text \<open>
  Claim C1. On every path of Read the observed \<^verbatim>\<open>encrypted_value\<close> is either the
  declared ciphertext or the fixed string \<^verbatim>\<open>Outdated sensitive value\<close>, so the
  plaintext is never stored in that field. When the fetch has produced the parameter
  and the declared ciphertext has been decoded and decrypted with the declared key,
  the observed value is the declared ciphertext if the decrypted plaintext equals the
  plaintext the store holds, and the fixed string if the two differ.
\<close>

theorem C1_observed_value:
  "(d_encrypted_value (fst (snd (resourceAwsSsmParameterRead d meta rt log))) = d_encrypted_value d
    \<or> d_encrypted_value (fst (snd (resourceAwsSsmParameterRead d meta rt log))) =
         ''Outdated sensitive value'')
   \<and> (\<forall>param n encValue log1 blob plaintext.
         read_last_chance d meta (read_retry d meta rt log) = (Some param, None, log1)
         \<and> Param_Name param = Some n \<and> Param_Value param = Some encValue
         \<and> DecodeString rt (d_encrypted_value d) = Inr blob
         \<and> Decrypt_reply meta log1 (d_encryption_key d) blob = Inr plaintext \<longrightarrow>
           (plaintext = encValue \<longrightarrow>
              d_encrypted_value (fst (snd (resourceAwsSsmParameterRead d meta rt log))) =
                d_encrypted_value d)
           \<and> (plaintext \<noteq> encValue \<longrightarrow>
              d_encrypted_value (fst (snd (resourceAwsSsmParameterRead d meta rt log))) =
                ''Outdated sensitive value''))"
proof (intro conjI allI impI)
  show "d_encrypted_value (fst (snd (resourceAwsSsmParameterRead d meta rt log))) = d_encrypted_value d
    \<or> d_encrypted_value (fst (snd (resourceAwsSsmParameterRead d meta rt log))) =
         ''Outdated sensitive value''"
    unfolding resourceAwsSsmParameterRead_def by (rule read_found_observed)
next
  fix param n encValue log1 blob plaintext
  assume h: "read_last_chance d meta (read_retry d meta rt log) = (Some param, None, log1)
         \<and> Param_Name param = Some n \<and> Param_Value param = Some encValue
         \<and> DecodeString rt (d_encrypted_value d) = Inr blob
         \<and> Decrypt_reply meta log1 (d_encryption_key d) blob = Inr plaintext"
  then have r: "resourceAwsSsmParameterRead d meta rt log = read_value d meta rt n encValue param log1"
    by (simp add: resourceAwsSsmParameterRead_def read_found_def isAWSErr_def)
  show "d_encrypted_value (fst (snd (resourceAwsSsmParameterRead d meta rt log))) = d_encrypted_value d"
    if "plaintext = encValue"
    using that h by (simp add: r read_value_observed)
  show "d_encrypted_value (fst (snd (resourceAwsSsmParameterRead d meta rt log))) =
          ''Outdated sensitive value''"
    if "plaintext \<noteq> encValue"
    using that h by (simp add: r read_value_observed)
qed

theorem C1_observed_value_witness:
  "read_last_chance ex_d ex_meta (read_retry ex_d ex_meta ex_rt []) =
     (Some ex_param, None, [GetParameter ''/a/b'' True])
   \<and> d_encrypted_value
        (fst (snd (resourceAwsSsmParameterRead ex_d ex_meta ex_rt []))) = ''Y2lwaGVy''
   \<and> d_encrypted_value
        (fst (snd (resourceAwsSsmParameterRead ex_d
           (ex_meta\<lparr>Decrypt_reply := (\<lambda>log k b. Inr ''rotated'')\<rparr>) ex_rt []))) =
       ''Outdated sensitive value''"
proof -
  let ?meta' = "ex_meta\<lparr>Decrypt_reply := (\<lambda>log k b. Inr ''rotated'')\<rparr>"
  have f: "read_last_chance ex_d ex_meta (read_retry ex_d ex_meta ex_rt []) =
             (Some ex_param, None, [GetParameter ''/a/b'' True])"
    by code_simp
  have f': "read_last_chance ex_d ?meta' (read_retry ex_d ?meta' ex_rt []) =
             (Some ex_param, None, [GetParameter ''/a/b'' True])"
    by code_simp
  have p: "Param_Name ex_param = Some ''/a/b''" "Param_Value ex_param = Some ''secret''"
    by (simp_all add: ex_param_def)
  have dec: "DecodeString ex_rt (d_encrypted_value ex_d) = Inr ''cipher''"
    by (simp add: ex_rt_def ex_d_def)
  have k: "Decrypt_reply ex_meta [GetParameter ''/a/b'' True] (d_encryption_key ex_d) ''cipher'' =
             Inr ''secret''"
    by (simp add: ex_meta_def)
  have k': "Decrypt_reply ?meta' [GetParameter ''/a/b'' True] (d_encryption_key ex_d) ''cipher'' =
             Inr ''rotated''"
    by simp
  have "d_encrypted_value (fst (snd (resourceAwsSsmParameterRead ex_d ex_meta ex_rt []))) =
          d_encrypted_value ex_d"
    using C1_observed_value[of ex_d ex_meta ex_rt "[]"] f p dec k by blast
  moreover have "d_encrypted_value (fst (snd (resourceAwsSsmParameterRead ex_d ?meta' ex_rt []))) =
          ''Outdated sensitive value''"
  proof -
    have "''rotated'' \<noteq> ''secret''" by simp
    then show ?thesis
      using C1_observed_value[of ex_d ?meta' ex_rt "[]"] f' p dec k' by blast
  qed
  ultimately show ?thesis using f by (simp add: ex_d_def)
qed

section \<open>The overwrite flag\<close>

text \<open>
  Claim C2. Every write request that a Put issues carries the overwrite flag
  \<open>shouldUpdateSsmParameter d\<close>, which is the caller's value when the caller set one,
  and otherwise false for a new record and true for a record that is already managed.
  When the declared ciphertext decodes and decrypts, Put does issue the write built by
  \<open>put_input\<close>. What the store does with a write that must not overwrite is the store's
  behaviour and is not modelled.
\<close>

theorem C2_overwrite_flag:
  "(\<forall>p. PutParameter p \<in> set (issued log (snd (snd (resourceAwsSsmParameterPut d meta rt log)))) \<longrightarrow>
        Put_Overwrite p = shouldUpdateSsmParameter d)
   \<and> (\<forall>v. d_overwrite d = Some v \<longrightarrow> shouldUpdateSsmParameter d = v)
   \<and> (d_overwrite d = None \<and> d_IsNewResource d \<longrightarrow> shouldUpdateSsmParameter d = False)
   \<and> (d_overwrite d = None \<and> \<not> d_IsNewResource d \<longrightarrow> shouldUpdateSsmParameter d = True)
   \<and> (\<forall>blob pt. DecodeString rt (d_encrypted_value d) = Inr blob
          \<and> Decrypt_reply meta log (d_encryption_key d) blob = Inr pt \<longrightarrow>
        PutParameter (put_input d pt)
          \<in> set (issued log (snd (snd (resourceAwsSsmParameterPut d meta rt log)))))"
proof (intro conjI allI impI)
  fix p
  assume p: "PutParameter p \<in> set (issued log (snd (snd (resourceAwsSsmParameterPut d meta rt log))))"
  obtain xs where xs: "snd (snd (resourceAwsSsmParameterPut d meta rt log)) = log @ xs"
    "\<forall>c\<in>set xs. is_write c \<longrightarrow>
           (\<exists>pt. c = PutParameter (put_input d pt)
                \<or> c = PutParameter ((put_input d pt)\<lparr>Put_Tier := None\<rparr>))"
    using Put_log by blast
  from p xs have "PutParameter p \<in> set xs" by simp
  with xs(2) obtain pt where "p = put_input d pt \<or> p = (put_input d pt)\<lparr>Put_Tier := None\<rparr>"
    by fastforce
  then show "Put_Overwrite p = shouldUpdateSsmParameter d"
    by (auto simp: put_input_def)
next
  fix blob pt
  assume "DecodeString rt (d_encrypted_value d) = Inr blob
          \<and> Decrypt_reply meta log (d_encryption_key d) blob = Inr pt"
  then show "PutParameter (put_input d pt)
          \<in> set (issued log (snd (snd (resourceAwsSsmParameterPut d meta rt log))))"
    using Put_first_write by blast
qed (simp_all add: shouldUpdateSsmParameter_def)

theorem C2_overwrite_flag_witness:
  "PutParameter (put_input ex_d ''secret'')
     \<in> set (issued [] (snd (snd (resourceAwsSsmParameterPut ex_d ex_meta ex_rt []))))
   \<and> Put_Overwrite (put_input ex_d ''secret'') = True
   \<and> shouldUpdateSsmParameter (ex_d\<lparr>d_IsNewResource := True\<rparr>) = False
   \<and> shouldUpdateSsmParameter (ex_d\<lparr>d_IsNewResource := True, d_overwrite := Some True\<rparr>) = True"
proof -
  have dec: "DecodeString ex_rt (d_encrypted_value ex_d) = Inr ''cipher''"
    by (simp add: ex_rt_def ex_d_def)
  have k: "Decrypt_reply ex_meta [] (d_encryption_key ex_d) ''cipher'' = Inr ''secret''"
    by (simp add: ex_meta_def)
  have o: "d_overwrite ex_d = None \<and> \<not> d_IsNewResource ex_d"
    by (simp add: ex_d_def)
  note c = C2_overwrite_flag[of "[]" ex_d ex_meta ex_rt]
  have m: "PutParameter (put_input ex_d ''secret'')
     \<in> set (issued [] (snd (snd (resourceAwsSsmParameterPut ex_d ex_meta ex_rt []))))"
    using c dec k by blast
  have "Put_Overwrite (put_input ex_d ''secret'') = shouldUpdateSsmParameter ex_d"
    using c m by blast
  moreover have "shouldUpdateSsmParameter ex_d = True"
    using c o by blast
  moreover have "shouldUpdateSsmParameter (ex_d\<lparr>d_IsNewResource := True\<rparr>) = False"
    using C2_overwrite_flag[of "[]" "ex_d\<lparr>d_IsNewResource := True\<rparr>" ex_meta ex_rt]
    by (simp add: ex_d_def)
  moreover have
    "shouldUpdateSsmParameter (ex_d\<lparr>d_IsNewResource := True, d_overwrite := Some True\<rparr>) = True"
    using C2_overwrite_flag[of "[]" "ex_d\<lparr>d_IsNewResource := True, d_overwrite := Some True\<rparr>"
            ex_meta ex_rt]
    by auto
  ultimately show ?thesis using m by simp
qed

section \<open>The last-chance fetch\<close>

text \<open>
  Claim C3, in the form the code supports. Let \<^verbatim>\<open>resource.Retry\<close> return the error \<open>err\<close>.
  If \<open>isResourceTimeoutError\<close> accepts \<open>err\<close> (a timeout that carries no last error),
  Read makes exactly one more fetch, whatever the record is, and no fetch after it; the
  result of that fetch replaces the result of the retry, and if it is an error Read
  ends at once, with the tolerated not-found or with the fatal read error. If
  \<open>isResourceTimeoutError\<close> does not accept \<open>err\<close> (no error, the last retryable error,
  a timeout that carries a last error, or any other error), Read makes no further
  fetch at all and the result of the retry decides: an error ends Read at once.
\<close>

theorem C3_last_chance_fetch:
  assumes retry: "read_retry d meta rt log = (err, resp, log1)"
  shows "(isResourceTimeoutError err \<longrightarrow>
            read_last_chance d meta (read_retry d meta rt log) =
              GetParameter_call meta (d_Id d) log1
            \<and> resourceAwsSsmParameterRead d meta rt log =
                read_found d meta rt (GetParameter_call meta (d_Id d) log1)
            \<and> filter is_fetch (issued log1 (snd (snd (resourceAwsSsmParameterRead d meta rt log)))) =
                [GetParameter (d_Id d) True]
            \<and> (\<forall>e. GetParameter_reply meta log1 (d_Id d) = Inl e \<longrightarrow>
                  resourceAwsSsmParameterRead d meta rt log =
                    (if isAWSErr (Some e) ErrCodeParameterNotFound '''' \<and> \<not> d_IsNewResource d
                     then (Return None, d\<lparr>d_Id := ''''\<rparr>, log1 @ [GetParameter (d_Id d) True])
                     else (Return (Some (WrapError
                                     (''error reading SSM Parameter ('' @ d_Id d @ ''): '') e)),
                           d, log1 @ [GetParameter (d_Id d) True]))))
       \<and> (\<not> isResourceTimeoutError err \<longrightarrow>
            read_last_chance d meta (read_retry d meta rt log) = (resp, err, log1)
            \<and> resourceAwsSsmParameterRead d meta rt log = read_found d meta rt (resp, err, log1)
            \<and> filter is_fetch (issued log1 (snd (snd (resourceAwsSsmParameterRead d meta rt log)))) = []
            \<and> (\<forall>e. err = Some e \<longrightarrow>
                  resourceAwsSsmParameterRead d meta rt log =
                    (if isAWSErr (Some e) ErrCodeParameterNotFound '''' \<and> \<not> d_IsNewResource d
                     then (Return None, d\<lparr>d_Id := ''''\<rparr>, log1)
                     else (Return (Some (WrapError
                                     (''error reading SSM Parameter ('' @ d_Id d @ ''): '') e)),
                           d, log1))))"
proof (intro conjI impI)
  assume timeout: "isResourceTimeoutError err"
  show lc: "read_last_chance d meta (read_retry d meta rt log) = GetParameter_call meta (d_Id d) log1"
    using retry timeout by (simp add: read_last_chance_def)
  show rd: "resourceAwsSsmParameterRead d meta rt log =
           read_found d meta rt (GetParameter_call meta (d_Id d) log1)"
    by (simp add: resourceAwsSsmParameterRead_def lc)
  obtain resp2 err2 where g:
    "GetParameter_call meta (d_Id d) log1 = (resp2, err2, log1 @ [GetParameter (d_Id d) True])"
    by (cases "GetParameter_reply meta log1 (d_Id d)") (auto simp: GetParameter_call_def)
  obtain xs where xs:
    "snd (snd (read_found d meta rt (resp2, err2, log1 @ [GetParameter (d_Id d) True]))) =
       (log1 @ [GetParameter (d_Id d) True]) @ xs"
    "\<forall>c\<in>set xs. \<not> is_fetch c \<and> \<not> is_write c"
    using read_found_log by blast
  show "filter is_fetch (issued log1 (snd (snd (resourceAwsSsmParameterRead d meta rt log)))) =
           [GetParameter (d_Id d) True]"
    using xs by (simp add: rd g issued_def filter_no_fetch)
  show "\<forall>e. GetParameter_reply meta log1 (d_Id d) = Inl e \<longrightarrow>
          resourceAwsSsmParameterRead d meta rt log =
            (if isAWSErr (Some e) ErrCodeParameterNotFound '''' \<and> \<not> d_IsNewResource d
             then (Return None, d\<lparr>d_Id := ''''\<rparr>, log1 @ [GetParameter (d_Id d) True])
             else (Return (Some (WrapError (''error reading SSM Parameter ('' @ d_Id d @ ''): '') e)),
                   d, log1 @ [GetParameter (d_Id d) True]))"
    by (simp add: rd GetParameter_call_def read_found_def)
next
  assume other: "\<not> isResourceTimeoutError err"
  show lc: "read_last_chance d meta (read_retry d meta rt log) = (resp, err, log1)"
    using retry other by (simp add: read_last_chance_def)
  show rd: "resourceAwsSsmParameterRead d meta rt log = read_found d meta rt (resp, err, log1)"
    by (simp add: resourceAwsSsmParameterRead_def lc)
  obtain xs where xs:
    "snd (snd (read_found d meta rt (resp, err, log1))) = log1 @ xs"
    "\<forall>c\<in>set xs. \<not> is_fetch c \<and> \<not> is_write c"
    using read_found_log by blast
  show "filter is_fetch (issued log1 (snd (snd (resourceAwsSsmParameterRead d meta rt log)))) = []"
    using xs by (simp add: rd issued_def filter_no_fetch)
  show "\<forall>e. err = Some e \<longrightarrow>
          resourceAwsSsmParameterRead d meta rt log =
            (if isAWSErr (Some e) ErrCodeParameterNotFound '''' \<and> \<not> d_IsNewResource d
             then (Return None, d\<lparr>d_Id := ''''\<rparr>, log1)
             else (Return (Some (WrapError (''error reading SSM Parameter ('' @ d_Id d @ ''): '') e)),
                   d, log1))"
    by (simp add: rd read_found_def)
qed

theorem C3_last_chance_fetch_witness:
  "read_retry ex_d_image ex_meta (ex_rt\<lparr>attempts_within := (\<lambda>t. 0)\<rparr>) [] =
     (Some (TimeoutError None), None, [])
   \<and> isResourceTimeoutError (Some (TimeoutError None))
   \<and> filter is_fetch
        (issued [] (snd (snd (resourceAwsSsmParameterRead ex_d_image ex_meta
           (ex_rt\<lparr>attempts_within := (\<lambda>t. 0)\<rparr>) [])))) =
       [GetParameter ''/a/b'' True]
   \<and> resourceAwsSsmParameterRead ex_d_image ex_meta (ex_rt\<lparr>attempts_within := (\<lambda>t. 0)\<rparr>) [] =
       read_found ex_d_image ex_meta (ex_rt\<lparr>attempts_within := (\<lambda>t. 0)\<rparr>)
         (Some ex_param, None, [GetParameter ''/a/b'' True])
   \<and> read_retry ex_d_image ex_meta_absent ex_rt [] =
       (Some (ErrorString ''error reading SSM Parameter (/a/b) after creation: this can indicate that the provided parameter value could not be validated by SSM''),
        None, [GetParameter ''/a/b'' True, GetParameter ''/a/b'' True])
   \<and> filter is_fetch
        (issued [GetParameter ''/a/b'' True, GetParameter ''/a/b'' True]
           (snd (snd (resourceAwsSsmParameterRead ex_d_image ex_meta_absent ex_rt [])))) = []
   \<and> resourceAwsSsmParameterRead ex_d_image ex_meta_absent ex_rt [] =
       (Return (Some (WrapError ''error reading SSM Parameter (/a/b): ''
          (ErrorString ''error reading SSM Parameter (/a/b) after creation: this can indicate that the provided parameter value could not be validated by SSM''))),
        ex_d_image, [GetParameter ''/a/b'' True, GetParameter ''/a/b'' True])"
proof -
  let ?rt = "ex_rt\<lparr>attempts_within := (\<lambda>t. 0)\<rparr>"
  let ?retryable = "ErrorString ''error reading SSM Parameter (/a/b) after creation: this can indicate that the provided parameter value could not be validated by SSM''"
  let ?two = "[GetParameter ''/a/b'' True, GetParameter ''/a/b'' True]"
  have r: "read_retry ex_d_image ex_meta ?rt [] = (Some (TimeoutError None), None, [])"
    by code_simp
  have t: "isResourceTimeoutError (Some (TimeoutError None))"
    by (simp add: isResourceTimeoutError_def)
  have g: "GetParameter_call ex_meta (d_Id ex_d_image) [] =
             (Some ex_param, None, [GetParameter ''/a/b'' True])"
    by code_simp
  have i: "d_Id ex_d_image = ''/a/b''" "d_IsNewResource ex_d_image"
    by (simp_all add: ex_d_image_def ex_d_def)
  note c = C3_last_chance_fetch[OF r]
  have "resourceAwsSsmParameterRead ex_d_image ex_meta ?rt [] =
          read_found ex_d_image ex_meta ?rt (GetParameter_call ex_meta (d_Id ex_d_image) [])"
    using c t by blast
  then have a: "resourceAwsSsmParameterRead ex_d_image ex_meta ?rt [] =
          read_found ex_d_image ex_meta ?rt (Some ex_param, None, [GetParameter ''/a/b'' True])"
    by (simp only: g)
  have "filter is_fetch
          (issued [] (snd (snd (resourceAwsSsmParameterRead ex_d_image ex_meta ?rt [])))) =
        [GetParameter (d_Id ex_d_image) True]"
    using c t by blast
  then have b: "filter is_fetch
          (issued [] (snd (snd (resourceAwsSsmParameterRead ex_d_image ex_meta ?rt [])))) =
        [GetParameter ''/a/b'' True]"
    by (simp only: i)
  have r': "read_retry ex_d_image ex_meta_absent ex_rt [] = (Some ?retryable, None, ?two)"
    by code_simp
  have nt: "\<not> isResourceTimeoutError (Some ?retryable)"
    by (simp add: isResourceTimeoutError_def)
  have nf: "\<not> (isAWSErr (Some ?retryable) ErrCodeParameterNotFound ''''
               \<and> \<not> d_IsNewResource ex_d_image)"
    by (simp add: i)
  note c' = C3_last_chance_fetch[OF r']
  have a': "filter is_fetch
          (issued ?two (snd (snd (resourceAwsSsmParameterRead ex_d_image ex_meta_absent ex_rt [])))) = []"
    using c' nt by blast
  have "resourceAwsSsmParameterRead ex_d_image ex_meta_absent ex_rt [] =
          (if isAWSErr (Some ?retryable) ErrCodeParameterNotFound '''' \<and> \<not> d_IsNewResource ex_d_image
           then (Return None, ex_d_image\<lparr>d_Id := ''''\<rparr>, ?two)
           else (Return (Some (WrapError (''error reading SSM Parameter ('' @ d_Id ex_d_image @ ''): '')
                    ?retryable)), ex_d_image, ?two))"
    using c' nt by blast
  then have b': "resourceAwsSsmParameterRead ex_d_image ex_meta_absent ex_rt [] =
       (Return (Some (WrapError ''error reading SSM Parameter (/a/b): '' ?retryable)),
        ex_d_image, ?two)"
    using nf by (simp add: i)
  from r t a b r' a' b' show ?thesis by blast
qed

text \<open>
  Claim C3 as the specification words it speaks of every retry window that closes
  without resolving. In the concrete run the store never finds the new machine-image
  parameter and the window closes after two attempts. When \<^verbatim>\<open>resource.Retry\<close> then
  reports the last retryable error, and also when it reports a timeout that carries
  that error, Read makes no third fetch: its calls are the two fetches of the window.
\<close>

theorem C3_timeout_counterexample:
  "read_retry ex_d_image ex_meta_absent ex_rt [] =
     (Some (ErrorString ''error reading SSM Parameter (/a/b) after creation: this can indicate that the provided parameter value could not be validated by SSM''),
      None, [GetParameter ''/a/b'' True, GetParameter ''/a/b'' True])
   \<and> snd (snd (resourceAwsSsmParameterRead ex_d_image ex_meta_absent ex_rt [])) =
       [GetParameter ''/a/b'' True, GetParameter ''/a/b'' True]
   \<and> read_retry ex_d_image ex_meta_absent (ex_rt\<lparr>timed_out := TimeoutError\<rparr>) [] =
     (Some (TimeoutError (Some (ErrorString ''error reading SSM Parameter (/a/b) after creation: this can indicate that the provided parameter value could not be validated by SSM''))),
      None, [GetParameter ''/a/b'' True, GetParameter ''/a/b'' True])
   \<and> snd (snd (resourceAwsSsmParameterRead ex_d_image ex_meta_absent
        (ex_rt\<lparr>timed_out := TimeoutError\<rparr>) [])) =
       [GetParameter ''/a/b'' True, GetParameter ''/a/b'' True]"
  by code_simp

section \<open>Decryption failures\<close>

text \<open>
  Claim C4, in the form the code supports. A failure of the decryption service is fatal
  on both paths. In Read, when the fetch has produced the parameter and the declared
  ciphertext decodes, a failing \<^verbatim>\<open>Decrypt\<close> makes Read return the error
  \<^verbatim>\<open>Error decrypting with KMS\<close>, with the resource record unchanged and no call after
  \<^verbatim>\<open>Decrypt\<close>. In Put, a failing \<^verbatim>\<open>Decrypt\<close> makes Put return the same error, and
  \<^verbatim>\<open>Decrypt\<close> is the only call made: no write reaches the store.
\<close>

theorem C4_decrypt_failure_fatal:
  assumes dec: "DecodeString rt (d_encrypted_value d) = Inr blob"
  shows "(\<forall>param n encValue log1 e.
            read_last_chance d meta (read_retry d meta rt log) = (Some param, None, log1)
            \<and> Param_Name param = Some n \<and> Param_Value param = Some encValue
            \<and> Decrypt_reply meta log1 (d_encryption_key d) blob = Inl e \<longrightarrow>
              resourceAwsSsmParameterRead d meta rt log =
                (Return (Some (ErrorText ''Error decrypting with KMS: '' (ErrorText '''' e))),
                 d, log1 @ [Decrypt (d_encryption_key d) blob]))
       \<and> (\<forall>e. Decrypt_reply meta log (d_encryption_key d) blob = Inl e \<longrightarrow>
              resourceAwsSsmParameterPut d meta rt log =
                (Return (Some (ErrorText ''Error decrypting with KMS: '' (ErrorText '''' e))),
                 d, log @ [Decrypt (d_encryption_key d) blob]))"
  using dec
  by (auto simp: resourceAwsSsmParameterRead_def read_found_def read_value_def kmsDecrypt_def
        resourceAwsSsmParameterPut_def isAWSErr_def)

theorem C4_decrypt_failure_fatal_witness:
  "DecodeString ex_rt (d_encrypted_value ex_d) = Inr ''cipher''
   \<and> resourceAwsSsmParameterRead ex_d (ex_meta\<lparr>Decrypt_reply := (\<lambda>log k b. Inl ex_denied)\<rparr>) ex_rt [] =
       (Return (Some (ErrorText ''Error decrypting with KMS: '' (ErrorText '''' ex_denied))),
        ex_d, [GetParameter ''/a/b'' True, Decrypt ''alias/k'' ''cipher''])
   \<and> resourceAwsSsmParameterPut ex_d (ex_meta\<lparr>Decrypt_reply := (\<lambda>log k b. Inl ex_denied)\<rparr>) ex_rt [] =
       (Return (Some (ErrorText ''Error decrypting with KMS: '' (ErrorText '''' ex_denied))),
        ex_d, [Decrypt ''alias/k'' ''cipher''])"
proof -
  let ?meta = "ex_meta\<lparr>Decrypt_reply := (\<lambda>log k b. Inl ex_denied)\<rparr>"
  have dec: "DecodeString ex_rt (d_encrypted_value ex_d) = Inr ''cipher''"
    by (simp add: ex_rt_def ex_d_def)
  have f: "read_last_chance ex_d ?meta (read_retry ex_d ?meta ex_rt []) =
             (Some ex_param, None, [GetParameter ''/a/b'' True])"
    by code_simp
  have p: "Param_Name ex_param = Some ''/a/b''" "Param_Value ex_param = Some ''secret''"
    by (simp_all add: ex_param_def)
  have k: "d_encryption_key ex_d = ''alias/k''"
    by (simp add: ex_d_def)
  note c = C4_decrypt_failure_fatal[OF dec, of ?meta "[]"]
  have "resourceAwsSsmParameterRead ex_d ?meta ex_rt [] =
       (Return (Some (ErrorText ''Error decrypting with KMS: '' (ErrorText '''' ex_denied))),
        ex_d, [GetParameter ''/a/b'' True] @ [Decrypt (d_encryption_key ex_d) ''cipher''])"
    using c f p by simp
  moreover have "resourceAwsSsmParameterPut ex_d ?meta ex_rt [] =
       (Return (Some (ErrorText ''Error decrypting with KMS: '' (ErrorText '''' ex_denied))),
        ex_d, [] @ [Decrypt (d_encryption_key ex_d) ''cipher''])"
    using c by simp
  ultimately show ?thesis using dec k by simp
qed

text \<open>
  Claim C4 as the specification words it says that Read downgrades a decryption
  failure to the sentinel value instead of failing. In the concrete run, with a key
  the caller may not use, Read returns the decryption error and the observed
  \<^verbatim>\<open>encrypted_value\<close> is still the declared ciphertext, not the sentinel.
\<close>

theorem C4_read_downgrade_counterexample:
  "fst (resourceAwsSsmParameterRead ex_d
          (ex_meta\<lparr>Decrypt_reply := (\<lambda>log k b. Inl ex_denied)\<rparr>) ex_rt []) =
     Return (Some (ErrorText ''Error decrypting with KMS: '' (ErrorText '''' ex_denied)))
   \<and> d_encrypted_value (fst (snd (resourceAwsSsmParameterRead ex_d
          (ex_meta\<lparr>Decrypt_reply := (\<lambda>log k b. Inl ex_denied)\<rparr>) ex_rt []))) =
     ''Y2lwaGVy''"
  by code_simp

section \<open>The retry of a write without a tier\<close>

lemma put_finish_outcome:
  "fst (put_finish d meta rt log) = Return None \<longleftrightarrow>
     (\<exists>log1.
        (if d_tags_old d \<noteq> d_tags d
         then SsmUpdateTags meta (d_name d) ResourceTypeForTaggingParameter
                (d_tags_old d) (d_tags d) log
         else (Return None, log)) = (Return None, log1)
        \<and> fst (resourceAwsSsmParameterRead (d\<lparr>d_Id := d_name d\<rparr>) meta rt log1) = Return None)"
proof -
  obtain out log1 where s:
    "(if d_tags_old d \<noteq> d_tags d
      then SsmUpdateTags meta (d_name d) ResourceTypeForTaggingParameter
             (d_tags_old d) (d_tags d) log
      else (Return None, log)) = (out, log1)"
    by (cases "if d_tags_old d \<noteq> d_tags d
               then SsmUpdateTags meta (d_name d) ResourceTypeForTaggingParameter
                      (d_tags_old d) (d_tags d) log
               else (Return None, log)") auto
  show ?thesis
    unfolding put_finish_def s
    by (cases out) (auto split: option.splits)
qed

text \<open>
  Claim C5, in the form the code supports. Take a Put whose ciphertext decodes and
  decrypts and whose write fails with the error \<open>e\<close>. If \<open>e\<close> is a
  \<^verbatim>\<open>ValidationException\<close> whose message contains \<^verbatim>\<open>Tier is not supported\<close>, the writes of
  the whole Put are exactly two: the request, and the same request with no tier. When
  that second write succeeds Put goes on as after a successful write, and it returns
  \<^verbatim>\<open>nil\<close> exactly when the tag update (made only if the tags changed) and the trailing
  Read both return \<^verbatim>\<open>nil\<close>; with unchanged tags its result is the result of the
  trailing Read. When the second write fails Put returns its error with no third write.
  If \<open>e\<close> is any other error, Put returns an error that embeds \<open>e\<close> after the one write.
\<close>

theorem C5_tier_retry:
  assumes dec: "DecodeString rt (d_encrypted_value d) = Inr blob"
    and kms: "Decrypt_reply meta log (d_encryption_key d) blob = Inr pt"
    and log1: "log1 = log @ [Decrypt (d_encryption_key d) blob]"
    and first: "PutParameter_reply meta log1 (put_input d pt) = Some e"
    and log2: "log2 = log1 @ [PutParameter (put_input d pt)]"
    and log3: "log3 = log2 @ [PutParameter ((put_input d pt)\<lparr>Put_Tier := None\<rparr>)]"
  shows "(isAWSErr (Some e) ''ValidationException'' ''Tier is not supported'' \<longrightarrow>
            filter is_write (issued log (snd (snd (resourceAwsSsmParameterPut d meta rt log)))) =
              [PutParameter (put_input d pt), PutParameter ((put_input d pt)\<lparr>Put_Tier := None\<rparr>)]
            \<and> (PutParameter_reply meta log2 ((put_input d pt)\<lparr>Put_Tier := None\<rparr>) = None \<longrightarrow>
                  resourceAwsSsmParameterPut d meta rt log = put_finish d meta rt log3)
            \<and> (PutParameter_reply meta log2 ((put_input d pt)\<lparr>Put_Tier := None\<rparr>) = None
                 \<and> d_tags_old d = d_tags d \<longrightarrow>
                  resourceAwsSsmParameterPut d meta rt log =
                    resourceAwsSsmParameterRead (d\<lparr>d_Id := d_name d\<rparr>) meta rt log3)
            \<and> (PutParameter_reply meta log2 ((put_input d pt)\<lparr>Put_Tier := None\<rparr>) = None \<longrightarrow>
                  (fst (resourceAwsSsmParameterPut d meta rt log) = Return None \<longleftrightarrow>
                     (\<exists>log4.
                        (if d_tags_old d \<noteq> d_tags d
                         then SsmUpdateTags meta (d_name d) ResourceTypeForTaggingParameter
                                (d_tags_old d) (d_tags d) log3
                         else (Return None, log3)) = (Return None, log4)
                        \<and> fst (resourceAwsSsmParameterRead (d\<lparr>d_Id := d_name d\<rparr>) meta rt log4) =
                            Return None)))
            \<and> (\<forall>e'. PutParameter_reply meta log2 ((put_input d pt)\<lparr>Put_Tier := None\<rparr>) = Some e' \<longrightarrow>
                  resourceAwsSsmParameterPut d meta rt log =
                    (Return (Some (ErrorText ''error creating SSM parameter: '' e')), d, log3)))
       \<and> (\<not> isAWSErr (Some e) ''ValidationException'' ''Tier is not supported'' \<longrightarrow>
            resourceAwsSsmParameterPut d meta rt log =
              (Return (Some (ErrorText ''error creating SSM parameter: '' e)), d, log2))"
proof (intro conjI impI allI)
  assume t: "isAWSErr (Some e) ''ValidationException'' ''Tier is not supported''"
  let ?p = "put_input d pt"
  let ?p' = "(put_input d pt)\<lparr>Put_Tier := None\<rparr>"
  have w: "put_write meta ?p log1 = (PutParameter_reply meta log2 ?p', log3)"
    using t first log2 log3 by (simp add: put_write_def)
  show "filter is_write (issued log (snd (snd (resourceAwsSsmParameterPut d meta rt log)))) =
          [PutParameter ?p, PutParameter ?p']"
  proof (cases "PutParameter_reply meta log2 ?p'")
    case None
    have "resourceAwsSsmParameterPut d meta rt log =
            put_finish d meta rt (log @ [Decrypt (d_encryption_key d) blob, PutParameter ?p, PutParameter ?p'])"
      using dec kms w None log1 log2 log3
      by (simp add: resourceAwsSsmParameterPut_def kmsDecrypt_def)
    then show ?thesis by (simp add: put_finish_writes)
  next
    case (Some e')
    then show ?thesis
      using dec kms w log1 log2 log3
      by (simp add: resourceAwsSsmParameterPut_def kmsDecrypt_def)
  qed
  show "resourceAwsSsmParameterPut d meta rt log = put_finish d meta rt log3"
    if "PutParameter_reply meta log2 ?p' = None"
    using that dec kms w log1 by (simp add: resourceAwsSsmParameterPut_def kmsDecrypt_def)
  show "resourceAwsSsmParameterPut d meta rt log =
          resourceAwsSsmParameterRead (d\<lparr>d_Id := d_name d\<rparr>) meta rt log3"
    if "PutParameter_reply meta log2 ?p' = None \<and> d_tags_old d = d_tags d"
    using that dec kms w log1
    by (simp add: resourceAwsSsmParameterPut_def kmsDecrypt_def put_finish_def)
  show "fst (resourceAwsSsmParameterPut d meta rt log) = Return None \<longleftrightarrow>
          (\<exists>log4.
             (if d_tags_old d \<noteq> d_tags d
              then SsmUpdateTags meta (d_name d) ResourceTypeForTaggingParameter
                     (d_tags_old d) (d_tags d) log3
              else (Return None, log3)) = (Return None, log4)
             \<and> fst (resourceAwsSsmParameterRead (d\<lparr>d_Id := d_name d\<rparr>) meta rt log4) = Return None)"
    if "PutParameter_reply meta log2 ?p' = None"
  proof -
    have "resourceAwsSsmParameterPut d meta rt log = put_finish d meta rt log3"
      using that dec kms w log1 by (simp add: resourceAwsSsmParameterPut_def kmsDecrypt_def)
    then show ?thesis by (simp add: put_finish_outcome)
  qed
  show "resourceAwsSsmParameterPut d meta rt log =
          (Return (Some (ErrorText ''error creating SSM parameter: '' e')), d, log3)"
    if "PutParameter_reply meta log2 ?p' = Some e'" for e'
    using that dec kms w log1 by (simp add: resourceAwsSsmParameterPut_def kmsDecrypt_def)
next
  assume "\<not> isAWSErr (Some e) ''ValidationException'' ''Tier is not supported''"
  then have "put_write meta (put_input d pt) log1 = (Some e, log2)"
    using first log2 by (simp add: put_write_def)
  then show "resourceAwsSsmParameterPut d meta rt log =
              (Return (Some (ErrorText ''error creating SSM parameter: '' e)), d, log2)"
    using dec kms log1 by (simp add: resourceAwsSsmParameterPut_def kmsDecrypt_def)
qed

theorem C5_tier_retry_witness:
  "isAWSErr (Some ex_tier) ''ValidationException'' ''Tier is not supported''
   \<and> \<not> isAWSErr (Some ex_denied) ''ValidationException'' ''Tier is not supported''
   \<and> filter is_write (issued [] (snd (snd (resourceAwsSsmParameterPut ex_d ex_meta_tier ex_rt [])))) =
       [PutParameter (put_input ex_d ''secret''),
        PutParameter ((put_input ex_d ''secret'')\<lparr>Put_Tier := None\<rparr>)]
   \<and> resourceAwsSsmParameterPut ex_d ex_meta_tier ex_rt [] =
       resourceAwsSsmParameterRead ex_d ex_meta_tier ex_rt
         [Decrypt ''alias/k'' ''cipher'', PutParameter (put_input ex_d ''secret''),
          PutParameter ((put_input ex_d ''secret'')\<lparr>Put_Tier := None\<rparr>)]
   \<and> fst (resourceAwsSsmParameterPut ex_d ex_meta_tier ex_rt []) = Return None
   \<and> d_tags_old ex_d_retag \<noteq> d_tags ex_d_retag
   \<and> fst (resourceAwsSsmParameterPut ex_d_retag ex_meta_tier ex_rt []) = Return None
   \<and> resourceAwsSsmParameterPut ex_d (ex_meta\<lparr>PutParameter_reply := (\<lambda>log p. Some ex_denied)\<rparr>)
        ex_rt [] =
       (Return (Some (ErrorText ''error creating SSM parameter: '' ex_denied)), ex_d,
        [Decrypt ''alias/k'' ''cipher'', PutParameter (put_input ex_d ''secret'')])"
proof -
  let ?meta = "ex_meta\<lparr>PutParameter_reply := (\<lambda>log p. Some ex_denied)\<rparr>"
  let ?log1 = "[Decrypt ''alias/k'' ''cipher'']"
  let ?log2 = "[Decrypt ''alias/k'' ''cipher'', PutParameter (put_input ex_d ''secret'')]"
  let ?log3 = "[Decrypt ''alias/k'' ''cipher'', PutParameter (put_input ex_d ''secret''),
                PutParameter ((put_input ex_d ''secret'')\<lparr>Put_Tier := None\<rparr>)]"
  have dec: "DecodeString ex_rt (d_encrypted_value ex_d) = Inr ''cipher''"
    by (simp add: ex_rt_def ex_d_def)
  have k: "Decrypt_reply ex_meta_tier [] (d_encryption_key ex_d) ''cipher'' = Inr ''secret''"
    "Decrypt_reply ?meta [] (d_encryption_key ex_d) ''cipher'' = Inr ''secret''"
    by (simp_all add: ex_meta_tier_def ex_meta_def)
  have l1: "?log1 = [] @ [Decrypt (d_encryption_key ex_d) ''cipher'']"
    by (simp add: ex_d_def)
  have l2: "?log2 = ?log1 @ [PutParameter (put_input ex_d ''secret'')]"
    by simp
  have l3: "?log3 = ?log2 @ [PutParameter ((put_input ex_d ''secret'')\<lparr>Put_Tier := None\<rparr>)]"
    by simp
  have first: "PutParameter_reply ex_meta_tier ?log1 (put_input ex_d ''secret'') = Some ex_tier"
    by (simp add: ex_meta_tier_def ex_meta_def put_input_def)
  have second: "PutParameter_reply ex_meta_tier ?log2 ((put_input ex_d ''secret'')\<lparr>Put_Tier := None\<rparr>) = None"
    by (simp add: ex_meta_tier_def ex_meta_def)
  have first': "PutParameter_reply ?meta ?log1 (put_input ex_d ''secret'') = Some ex_denied"
    by simp
  have t: "isAWSErr (Some ex_tier) ''ValidationException'' ''Tier is not supported''"
    by code_simp
  have nt: "\<not> isAWSErr (Some ex_denied) ''ValidationException'' ''Tier is not supported''"
    by code_simp
  have tags: "d_tags_old ex_d = d_tags ex_d" "ex_d\<lparr>d_Id := d_name ex_d\<rparr> = ex_d"
    by (simp_all add: ex_d_def)
  have rd: "fst (resourceAwsSsmParameterRead ex_d ex_meta_tier ex_rt ?log3) = Return None"
    by code_simp
  note c = C5_tier_retry[OF dec k(1) l1 first l2 l3]
  note c' = C5_tier_retry[OF dec k(2) l1 first' l2 l3]
  have a: "filter is_write (issued [] (snd (snd (resourceAwsSsmParameterPut ex_d ex_meta_tier ex_rt [])))) =
       [PutParameter (put_input ex_d ''secret''),
        PutParameter ((put_input ex_d ''secret'')\<lparr>Put_Tier := None\<rparr>)]"
    using c t by blast
  have "resourceAwsSsmParameterPut ex_d ex_meta_tier ex_rt [] =
          resourceAwsSsmParameterRead (ex_d\<lparr>d_Id := d_name ex_d\<rparr>) ex_meta_tier ex_rt ?log3"
    using c t second tags(1) by blast
  then have b: "resourceAwsSsmParameterPut ex_d ex_meta_tier ex_rt [] =
          resourceAwsSsmParameterRead ex_d ex_meta_tier ex_rt ?log3"
    by (simp only: tags(2))
  have ts: "(if d_tags_old ex_d \<noteq> d_tags ex_d
             then SsmUpdateTags ex_meta_tier (d_name ex_d) ResourceTypeForTaggingParameter
                    (d_tags_old ex_d) (d_tags ex_d) ?log3
             else (Return None, ?log3)) = (Return None, ?log3)"
    by (simp add: tags(1))
  have rd': "fst (resourceAwsSsmParameterRead (ex_d\<lparr>d_Id := d_name ex_d\<rparr>) ex_meta_tier ex_rt ?log3) =
               Return None"
    using rd by (simp only: tags(2))
  have s: "fst (resourceAwsSsmParameterPut ex_d ex_meta_tier ex_rt []) = Return None"
    using c t second ts rd' by blast
  have e: "resourceAwsSsmParameterPut ex_d ?meta ex_rt [] =
       (Return (Some (ErrorText ''error creating SSM parameter: '' ex_denied)), ex_d, ?log2)"
    using c' nt by blast
  let ?m1 = "[] @ [Decrypt (d_encryption_key ex_d_retag) ''cipher'']"
  let ?m2 = "?m1 @ [PutParameter (put_input ex_d_retag ''secret'')]"
  let ?m3 = "?m2 @ [PutParameter ((put_input ex_d_retag ''secret'')\<lparr>Put_Tier := None\<rparr>)]"
  let ?upd = "SsmUpdateTags ex_meta_tier (d_name ex_d_retag) ResourceTypeForTaggingParameter
                (d_tags_old ex_d_retag) (d_tags ex_d_retag) ?m3"
  have dec2: "DecodeString ex_rt (d_encrypted_value ex_d_retag) = Inr ''cipher''"
    by (simp add: ex_rt_def ex_d_def ex_d_retag_def)
  have k2: "Decrypt_reply ex_meta_tier [] (d_encryption_key ex_d_retag) ''cipher'' = Inr ''secret''"
    by (simp add: ex_meta_tier_def ex_meta_def)
  have first2: "PutParameter_reply ex_meta_tier ?m1 (put_input ex_d_retag ''secret'') = Some ex_tier"
    by (simp add: ex_meta_tier_def ex_meta_def put_input_def)
  have second2: "PutParameter_reply ex_meta_tier ?m2
                   ((put_input ex_d_retag ''secret'')\<lparr>Put_Tier := None\<rparr>) = None"
    by (simp add: ex_meta_tier_def ex_meta_def)
  have ch: "d_tags_old ex_d_retag \<noteq> d_tags ex_d_retag"
    by code_simp
  have u: "fst ?upd = Return None"
    by code_simp
  have ts2: "(if d_tags_old ex_d_retag \<noteq> d_tags ex_d_retag then ?upd else (Return None, ?m3)) =
               (Return None, snd ?upd)"
    using ch u by (simp add: prod_eq_iff)
  have rd2: "fst (resourceAwsSsmParameterRead (ex_d_retag\<lparr>d_Id := d_name ex_d_retag\<rparr>)
                    ex_meta_tier ex_rt (snd ?upd)) = Return None"
    by code_simp
  have s2: "fst (resourceAwsSsmParameterPut ex_d_retag ex_meta_tier ex_rt []) = Return None"
    using C5_tier_retry[OF dec2 k2 refl first2 refl refl] t second2 ts2 rd2 by blast
  from t nt a b s ch s2 e show ?thesis by blast
qed

text \<open>
  Claim C5 as the specification words it has Put report success whenever the retry
  without a tier succeeds. In the concrete run the store rejects the write that names
  a tier and accepts the one that does not, and then denies the fetch of the trailing
  Read: Put has made its two writes and returns the read error.
\<close>

theorem C5_success_counterexample:
  "PutParameter_reply (ex_meta_tier\<lparr>GetParameter_reply := (\<lambda>log n. Inl ex_denied)\<rparr>)
     [Decrypt ''alias/k'' ''cipher''] (put_input ex_d ''secret'') = Some ex_tier
   \<and> isAWSErr (Some ex_tier) ''ValidationException'' ''Tier is not supported''
   \<and> PutParameter_reply (ex_meta_tier\<lparr>GetParameter_reply := (\<lambda>log n. Inl ex_denied)\<rparr>)
       [Decrypt ''alias/k'' ''cipher'', PutParameter (put_input ex_d ''secret'')]
       ((put_input ex_d ''secret'')\<lparr>Put_Tier := None\<rparr>) = None
   \<and> filter is_write
        (snd (snd (resourceAwsSsmParameterPut ex_d
           (ex_meta_tier\<lparr>GetParameter_reply := (\<lambda>log n. Inl ex_denied)\<rparr>) ex_rt []))) =
       [PutParameter (put_input ex_d ''secret''),
        PutParameter ((put_input ex_d ''secret'')\<lparr>Put_Tier := None\<rparr>)]
   \<and> fst (resourceAwsSsmParameterPut ex_d
            (ex_meta_tier\<lparr>GetParameter_reply := (\<lambda>log n. Inl ex_denied)\<rparr>) ex_rt []) =
       Return (Some (WrapError ''error reading SSM Parameter (/a/b): '' ex_denied))"
  by code_simp

section \<open>Entries that are not found\<close>

text \<open>
  Claim C7. Let the fetch of Read (the retry followed by the last-chance fetch) end
  with the error \<open>err\<close>. If \<open>err\<close> is the not-found error of the store and the record is
  not new, Read clears the identifier, returns \<^verbatim>\<open>nil\<close> and makes no further call; in
  particular this is what happens when the first answer of the store is not-found. If
  the fetch succeeds and the describe call returns no record (no response, an empty
  list, or a \<^verbatim>\<open>nil\<close> first element), Read also clears the identifier and returns \<^verbatim>\<open>nil\<close>,
  without listing the tags. If the record is new, any error left by the fetch, a
  not-found that outlasted the retry window included, makes Read return a fatal error.
\<close>

theorem C7_not_found_handling:
  "(\<forall>resp err log1.
       read_last_chance d meta (read_retry d meta rt log) = (resp, err, log1)
       \<and> isAWSErr err ErrCodeParameterNotFound '''' \<and> \<not> d_IsNewResource d \<longrightarrow>
         resourceAwsSsmParameterRead d meta rt log = (Return None, d\<lparr>d_Id := ''''\<rparr>, log1))
   \<and> (\<forall>n e.
       attempts_within rt ssmParameterCreationValidationTimeout = Suc n
       \<and> GetParameter_reply meta log (d_Id d) = Inl e
       \<and> isAWSErr (Some e) ErrCodeParameterNotFound '''' \<and> \<not> d_IsNewResource d \<longrightarrow>
         resourceAwsSsmParameterRead d meta rt log =
           (Return None, d\<lparr>d_Id := ''''\<rparr>, log @ [GetParameter (d_Id d) True]))
   \<and> (\<forall>param n encValue log1 blob plaintext describeResp.
       read_last_chance d meta (read_retry d meta rt log) = (Some param, None, log1)
       \<and> Param_Name param = Some n \<and> Param_Value param = Some encValue
       \<and> DecodeString rt (d_encrypted_value d) = Inr blob
       \<and> Decrypt_reply meta log1 (d_encryption_key d) blob = Inr plaintext
       \<and> DescribeParameters_reply meta (log1 @ [Decrypt (d_encryption_key d) blob]) n =
            Inr describeResp
       \<and> (describeResp = None \<or> describeResp = Some []
            \<or> (\<exists>rest. describeResp = Some (None # rest))) \<longrightarrow>
         fst (resourceAwsSsmParameterRead d meta rt log) = Return None
         \<and> d_Id (fst (snd (resourceAwsSsmParameterRead d meta rt log))) = ''''
         \<and> snd (snd (resourceAwsSsmParameterRead d meta rt log)) =
             log1 @ [Decrypt (d_encryption_key d) blob, DescribeParameters n])
   \<and> (\<forall>resp e log1.
       read_last_chance d meta (read_retry d meta rt log) = (resp, Some e, log1)
       \<and> d_IsNewResource d \<longrightarrow>
         resourceAwsSsmParameterRead d meta rt log =
           (Return (Some (WrapError (''error reading SSM Parameter ('' @ d_Id d @ ''): '') e)),
            d, log1))"
proof (intro conjI allI impI)
  fix resp err log1
  assume "read_last_chance d meta (read_retry d meta rt log) = (resp, err, log1)
       \<and> isAWSErr err ErrCodeParameterNotFound '''' \<and> \<not> d_IsNewResource d"
  then show "resourceAwsSsmParameterRead d meta rt log = (Return None, d\<lparr>d_Id := ''''\<rparr>, log1)"
    by (simp add: resourceAwsSsmParameterRead_def read_found_def)
next
  fix n e
  assume h: "attempts_within rt ssmParameterCreationValidationTimeout = Suc n
       \<and> GetParameter_reply meta log (d_Id d) = Inl e
       \<and> isAWSErr (Some e) ErrCodeParameterNotFound '''' \<and> \<not> d_IsNewResource d"
  then have "read_retry d meta rt log = (Some e, None, log @ [GetParameter (d_Id d) True])"
    by (simp add: read_retry_def read_attempt_def GetParameter_call_def)
  moreover have "\<not> isResourceTimeoutError (Some e)"
    using h isAWSErr_not_timeout by blast
  ultimately show "resourceAwsSsmParameterRead d meta rt log =
           (Return None, d\<lparr>d_Id := ''''\<rparr>, log @ [GetParameter (d_Id d) True])"
    using h by (simp add: resourceAwsSsmParameterRead_def read_last_chance_def read_found_def)
next
  fix param n encValue log1 blob plaintext describeResp
  assume h: "read_last_chance d meta (read_retry d meta rt log) = (Some param, None, log1)
       \<and> Param_Name param = Some n \<and> Param_Value param = Some encValue
       \<and> DecodeString rt (d_encrypted_value d) = Inr blob
       \<and> Decrypt_reply meta log1 (d_encryption_key d) blob = Inr plaintext
       \<and> DescribeParameters_reply meta (log1 @ [Decrypt (d_encryption_key d) blob]) n =
            Inr describeResp
       \<and> (describeResp = None \<or> describeResp = Some []
            \<or> (\<exists>rest. describeResp = Some (None # rest)))"
  then have r: "resourceAwsSsmParameterRead d meta rt log =
      read_describe
        (d\<lparr>d_name := n,
           d_type := (case Param_Type param of None \<Rightarrow> '''' | Some x \<Rightarrow> x),
           d_encrypted_value :=
             (if plaintext = encValue then d_encrypted_value d else ''Outdated sensitive value''),
           d_version := (case Param_Version param of None \<Rightarrow> 0 | Some x \<Rightarrow> x)\<rparr>)
        meta n param (log1 @ [Decrypt (d_encryption_key d) blob])"
    by (simp add: resourceAwsSsmParameterRead_def read_found_def read_value_def kmsDecrypt_def
          isAWSErr_def)
  from h show "fst (resourceAwsSsmParameterRead d meta rt log) = Return None"
    unfolding r by (auto simp: read_describe_def)
  from h show "d_Id (fst (snd (resourceAwsSsmParameterRead d meta rt log))) = ''''"
    unfolding r by (auto simp: read_describe_def)
  from h show "snd (snd (resourceAwsSsmParameterRead d meta rt log)) =
             log1 @ [Decrypt (d_encryption_key d) blob, DescribeParameters n]"
    unfolding r by (auto simp: read_describe_def)
next
  fix resp e log1
  assume "read_last_chance d meta (read_retry d meta rt log) = (resp, Some e, log1)
       \<and> d_IsNewResource d"
  then show "resourceAwsSsmParameterRead d meta rt log =
           (Return (Some (WrapError (''error reading SSM Parameter ('' @ d_Id d @ ''): '') e)),
            d, log1)"
    by (simp add: resourceAwsSsmParameterRead_def read_found_def)
qed

theorem C7_not_found_handling_witness:
  "resourceAwsSsmParameterRead ex_d ex_meta_absent ex_rt [] =
     (Return None, ex_d\<lparr>d_Id := ''''\<rparr>, [GetParameter ''/a/b'' True])
   \<and> fst (resourceAwsSsmParameterRead ex_d
            (ex_meta\<lparr>DescribeParameters_reply := (\<lambda>log n. Inr (Some []))\<rparr>) ex_rt []) = Return None
   \<and> d_Id (fst (snd (resourceAwsSsmParameterRead ex_d
            (ex_meta\<lparr>DescribeParameters_reply := (\<lambda>log n. Inr (Some []))\<rparr>) ex_rt []))) = ''''
   \<and> resourceAwsSsmParameterRead ex_d_image ex_meta_absent ex_rt [] =
       (Return (Some (WrapError ''error reading SSM Parameter (/a/b): ''
          (ErrorString ''error reading SSM Parameter (/a/b) after creation: this can indicate that the provided parameter value could not be validated by SSM''))),
        ex_d_image, [GetParameter ''/a/b'' True, GetParameter ''/a/b'' True])"
proof -
  let ?meta = "ex_meta\<lparr>DescribeParameters_reply := (\<lambda>log n. Inr (Some []))\<rparr>"
  let ?retryable = "ErrorString ''error reading SSM Parameter (/a/b) after creation: this can indicate that the provided parameter value could not be validated by SSM''"
  have i: "d_Id ex_d = ''/a/b''" "\<not> d_IsNewResource ex_d" "d_encryption_key ex_d = ''alias/k''"
    "d_Id ex_d_image = ''/a/b''" "d_IsNewResource ex_d_image"
    by (simp_all add: ex_d_def ex_d_image_def)
  have w: "attempts_within ex_rt ssmParameterCreationValidationTimeout = Suc 1"
    by (simp add: ex_rt_def)
  have g: "GetParameter_reply ex_meta_absent [] (d_Id ex_d) = Inl ex_not_found"
    by (simp add: ex_meta_absent_def ex_not_found_def)
  have nf: "isAWSErr (Some ex_not_found) ErrCodeParameterNotFound ''''"
    by code_simp
  have a: "resourceAwsSsmParameterRead ex_d ex_meta_absent ex_rt [] =
     (Return None, ex_d\<lparr>d_Id := ''''\<rparr>, [] @ [GetParameter (d_Id ex_d) True])"
    using C7_not_found_handling[of ex_d ex_meta_absent ex_rt "[]"] w g nf i(2) by blast
  have f: "read_last_chance ex_d ?meta (read_retry ex_d ?meta ex_rt []) =
             (Some ex_param, None, [GetParameter ''/a/b'' True])"
    by code_simp
  have p: "Param_Name ex_param = Some ''/a/b''" "Param_Value ex_param = Some ''secret''"
    by (simp_all add: ex_param_def)
  have dec: "DecodeString ex_rt (d_encrypted_value ex_d) = Inr ''cipher''"
    by (simp add: ex_rt_def ex_d_def)
  have k: "Decrypt_reply ?meta [GetParameter ''/a/b'' True] (d_encryption_key ex_d) ''cipher'' =
             Inr ''secret''"
    by (simp add: ex_meta_def)
  have ds: "DescribeParameters_reply ?meta
              ([GetParameter ''/a/b'' True] @ [Decrypt (d_encryption_key ex_d) ''cipher'']) ''/a/b'' =
            Inr (Some [])"
    by simp
  have b: "fst (resourceAwsSsmParameterRead ex_d ?meta ex_rt []) = Return None
           \<and> d_Id (fst (snd (resourceAwsSsmParameterRead ex_d ?meta ex_rt []))) = ''''"
    using C7_not_found_handling[of ex_d ?meta ex_rt "[]"] f p dec k ds by blast
  have f': "read_last_chance ex_d_image ex_meta_absent (read_retry ex_d_image ex_meta_absent ex_rt []) =
             (None, Some ?retryable, [GetParameter ''/a/b'' True, GetParameter ''/a/b'' True])"
    by code_simp
  have c: "resourceAwsSsmParameterRead ex_d_image ex_meta_absent ex_rt [] =
       (Return (Some (WrapError (''error reading SSM Parameter ('' @ d_Id ex_d_image @ ''): '')
          ?retryable)),
        ex_d_image, [GetParameter ''/a/b'' True, GetParameter ''/a/b'' True])"
    using C7_not_found_handling[of ex_d_image ex_meta_absent ex_rt "[]"] f' i(5) by blast
  from a b c show ?thesis by (simp add: i)
qed

section \<open>Retryable fetch errors\<close>

text \<open>
  Claim C8. When a fetch inside the retry returns the error \<open>e\<close>, the attempt is
  retryable exactly when \<open>e\<close> is the not-found error of the store, the record is new,
  and its declared data type is \<^verbatim>\<open>aws:ec2:image\<close>. In every other case the attempt is
  non-retryable with \<open>e\<close> itself, and the retry ends there, after that one fetch,
  returning \<open>e\<close>. A retryable attempt hands over to the rest of the window, which is the
  one of \<open>ssmParameterCreationValidationTimeout\<close>: two minutes, in nanoseconds.
\<close>

theorem C8_retryable_classification:
  assumes reply: "GetParameter_reply meta log (d_Id d) = Inl e"
  shows "((\<exists>x. fst (read_attempt d meta (resp, log)) = Some (RetryableError x)) \<longleftrightarrow>
            isAWSErr (Some e) ErrCodeParameterNotFound '''' \<and> d_IsNewResource d
            \<and> d_data_type d = ''aws:ec2:image'')
       \<and> (\<not> (isAWSErr (Some e) ErrCodeParameterNotFound '''' \<and> d_IsNewResource d
              \<and> d_data_type d = ''aws:ec2:image'') \<longrightarrow>
            fst (read_attempt d meta (resp, log)) = Some (NonRetryableError e)
            \<and> Retry closed (Suc n) lastErr (read_attempt d meta) (resp, log) =
                (Some e, None, log @ [GetParameter (d_Id d) True]))
       \<and> (isAWSErr (Some e) ErrCodeParameterNotFound '''' \<and> d_IsNewResource d
              \<and> d_data_type d = ''aws:ec2:image'' \<longrightarrow>
            (\<exists>x. Retry closed (Suc n) lastErr (read_attempt d meta) (resp, log) =
                   Retry closed n (Some x) (read_attempt d meta)
                     (None, log @ [GetParameter (d_Id d) True])))
       \<and> read_retry d meta rt log =
           Retry (timed_out rt) (attempts_within rt (2 * 60 * 1000000000)) None
             (read_attempt d meta) (None, log)"
  using reply
  by (auto simp: read_attempt_def GetParameter_call_def read_retry_def
        ssmParameterCreationValidationTimeout_def Minute_def Second_def)

theorem C8_retryable_classification_witness:
  "GetParameter_reply ex_meta_absent [] ''/a/b'' = Inl ex_not_found
   \<and> isAWSErr (Some ex_not_found) ErrCodeParameterNotFound ''''
   \<and> (\<exists>x. fst (read_attempt ex_d_image ex_meta_absent (None, [])) = Some (RetryableError x))
   \<and> fst (read_attempt ex_d ex_meta_absent (None, [])) = Some (NonRetryableError ex_not_found)
   \<and> read_retry ex_d ex_meta_absent ex_rt [] =
       (Some ex_not_found, None, [GetParameter ''/a/b'' True])
   \<and> fst (read_attempt (ex_d_image\<lparr>d_data_type := ''text''\<rparr>) ex_meta_absent (None, [])) =
       Some (NonRetryableError ex_not_found)"
proof -
  have i: "d_Id ex_d = ''/a/b''" "\<not> d_IsNewResource ex_d" "d_Id ex_d_image = ''/a/b''"
    "d_IsNewResource ex_d_image" "d_data_type ex_d_image = ''aws:ec2:image''"
    "d_Id (ex_d_image\<lparr>d_data_type := ''text''\<rparr>) = ''/a/b''"
    by (simp_all add: ex_d_def ex_d_image_def)
  have g: "GetParameter_reply ex_meta_absent [] ''/a/b'' = Inl ex_not_found"
    by (simp add: ex_meta_absent_def ex_not_found_def)
  have nf: "isAWSErr (Some ex_not_found) ErrCodeParameterNotFound ''''"
    by code_simp
  have w: "attempts_within ex_rt (2 * 60 * 1000000000) = Suc 1"
    by (simp add: ex_rt_def)
  have a: "\<exists>x. fst (read_attempt ex_d_image ex_meta_absent (None, [])) = Some (RetryableError x)"
    using C8_retryable_classification[of ex_meta_absent "[]" ex_d_image ex_not_found None]
      g nf i(3,4,5) by simp
  note c = C8_retryable_classification[of ex_meta_absent "[]" ex_d ex_not_found None
             "timed_out ex_rt" 1 None ex_rt]
  have b: "fst (read_attempt ex_d ex_meta_absent (None, [])) = Some (NonRetryableError ex_not_found)"
    using c g i(1,2) by simp
  have "read_retry ex_d ex_meta_absent ex_rt [] =
          Retry (timed_out ex_rt) (Suc 1) None (read_attempt ex_d ex_meta_absent) (None, [])"
    using c g i(1) w by simp
  moreover have "Retry (timed_out ex_rt) (Suc 1) None (read_attempt ex_d ex_meta_absent) (None, []) =
          (Some ex_not_found, None, [] @ [GetParameter (d_Id ex_d) True])"
    using c g i(1,2) by simp
  ultimately have r: "read_retry ex_d ex_meta_absent ex_rt [] =
       (Some ex_not_found, None, [GetParameter ''/a/b'' True])"
    by (simp add: i(1))
  have t: "fst (read_attempt (ex_d_image\<lparr>d_data_type := ''text''\<rparr>) ex_meta_absent (None, [])) =
       Some (NonRetryableError ex_not_found)"
    using C8_retryable_classification[of ex_meta_absent "[]" "ex_d_image\<lparr>d_data_type := ''text''\<rparr>"
            ex_not_found None] g i(6)
    by simp
  from g nf a b r t show ?thesis by blast
qed

section \<open>Delete\<close>

text \<open>
  Claim C9. Every Delete issues exactly one \<^verbatim>\<open>DeleteParameter\<close> call, by name, and never a
  second one. Whatever error that call returns, the not-found error of the store
  included, Delete returns an error that embeds it; Delete returns \<^verbatim>\<open>nil\<close> only when
  the call succeeded. The resource record, its identifier included, is left as it was,
  so an entry that is already gone is not tolerated the way Read tolerates it.
\<close>

theorem C9_delete_single_call:
  "issued log (snd (snd (resourceAwsSsmParameterDelete d meta log))) = [DeleteParameter (d_name d)]
   \<and> snd (snd (resourceAwsSsmParameterDelete d meta log)) = log @ [DeleteParameter (d_name d)]
   \<and> fst (snd (resourceAwsSsmParameterDelete d meta log)) = d
   \<and> (\<forall>e. DeleteParameter_reply meta log (d_name d) = Some e \<longrightarrow>
          fst (resourceAwsSsmParameterDelete d meta log) =
            Return (Some (ErrorText (''error deleting SSM Parameter ('' @ d_Id d @ ''): '') e)))
   \<and> (DeleteParameter_reply meta log (d_name d) = None \<longrightarrow>
          fst (resourceAwsSsmParameterDelete d meta log) = Return None)"
  by (auto simp: resourceAwsSsmParameterDelete_def split: option.splits)

theorem C9_delete_single_call_witness:
  "isAWSErr (Some ex_not_found) ErrCodeParameterNotFound ''''
   \<and> resourceAwsSsmParameterDelete ex_d
        (ex_meta\<lparr>DeleteParameter_reply := (\<lambda>log n. Some ex_not_found)\<rparr>) [] =
       (Return (Some (ErrorText ''error deleting SSM Parameter (/a/b): '' ex_not_found)),
        ex_d, [DeleteParameter ''/a/b''])"
  using C9_delete_single_call[of "[]" ex_d "ex_meta\<lparr>DeleteParameter_reply := (\<lambda>log n. Some ex_not_found)\<rparr>"]
  by (simp add: ex_d_def ex_meta_def ex_not_found_def isAWSErr_def ErrCodeParameterNotFound_def
        resourceAwsSsmParameterDelete_def)

section \<open>The calls of the tag update\<close>

text \<open>
  Claim C10, in the form the code supports. For tag inputs that \<open>New\<close> accepts,
  \<open>SsmUpdateTags\<close> issues the remove call exactly when \<open>Removed\<close> is not empty, and the
  add call exactly when \<open>Updated\<close> is not empty and the remove call, if there was one,
  succeeded. Both tests look at the maps before \<open>IgnoreAws\<close>, which only shapes the
  requests. When the old and the new tags are the same map, no call is made and the
  result is \<^verbatim>\<open>nil\<close>.
\<close>

theorem C10_tag_calls:
  assumes old: "New oldTagsMap = Some oldTags"
    and new: "New newTagsMap = Some newTags"
  shows "issued log (snd (SsmUpdateTags meta identifier resourceType oldTagsMap newTagsMap log)) =
           (if \<not> Mapping.is_empty (Removed oldTags newTags)
            then [RemoveTagsFromResource identifier resourceType
                    (Keys_tags (IgnoreAws (Removed oldTags newTags)))]
            else [])
           @ (if \<not> Mapping.is_empty (Updated oldTags newTags)
                 \<and> (Mapping.is_empty (Removed oldTags newTags)
                    \<or> RemoveTagsFromResource_reply meta log identifier resourceType
                         (Keys_tags (IgnoreAws (Removed oldTags newTags))) = None)
              then [AddTagsToResource identifier resourceType
                      (SsmTags (IgnoreAws (Updated oldTags newTags)))]
              else [])
       \<and> (oldTags = newTags \<longrightarrow>
            SsmUpdateTags meta identifier resourceType oldTagsMap newTagsMap log = (Return None, log))"
  using old new
  by (auto simp: SsmUpdateTags_def issued_def Removed_same Updated_same split: option.splits)

theorem C10_tag_calls_witness:
  "New ex_tags_before = Some ex_old \<and> New ex_tags_after = Some ex_new
   \<and> issued [] (snd (SsmUpdateTags ex_meta ''/a/b'' ''Parameter'' ex_tags_before ex_tags_after [])) =
       [RemoveTagsFromResource ''/a/b'' ''Parameter'' {''a''},
        AddTagsToResource ''/a/b'' ''Parameter''
          (Mapping.update ''b'' ''3'' (Mapping.update ''c'' ''4'' Mapping.empty))]
   \<and> SsmUpdateTags ex_meta ''/a/b'' ''Parameter'' ex_tags_after ex_tags_after [] = (Return None, [])"
proof -
  have o: "New ex_tags_before = Some ex_old"
    by code_simp
  have n: "New ex_tags_after = Some ex_new"
    by code_simp
  have r: "\<not> Mapping.is_empty (Removed ex_old ex_new)" "\<not> Mapping.is_empty (Updated ex_old ex_new)"
    by code_simp+
  have rk: "Keys_tags (IgnoreAws (Removed ex_old ex_new)) = {''a''}"
    by code_simp
  have uk: "SsmTags (IgnoreAws (Updated ex_old ex_new)) =
              Mapping.update ''b'' ''3'' (Mapping.update ''c'' ''4'' Mapping.empty)"
    by code_simp
  have ok: "RemoveTagsFromResource_reply ex_meta [] ''/a/b'' ''Parameter'' {''a''} = None"
    by (simp add: ex_meta_def)
  have a: "issued [] (snd (SsmUpdateTags ex_meta ''/a/b'' ''Parameter'' ex_tags_before ex_tags_after [])) =
       [RemoveTagsFromResource ''/a/b'' ''Parameter'' {''a''},
        AddTagsToResource ''/a/b'' ''Parameter''
          (Mapping.update ''b'' ''3'' (Mapping.update ''c'' ''4'' Mapping.empty))]"
    using C10_tag_calls[OF o n, of "[]" ex_meta "''/a/b''" "''Parameter''"] r rk uk ok by simp
  have b: "SsmUpdateTags ex_meta ''/a/b'' ''Parameter'' ex_tags_after ex_tags_after [] = (Return None, [])"
    using C10_tag_calls[OF n n, of "[]" ex_meta "''/a/b''" "''Parameter''"] by simp
  from o n a b show ?thesis by blast
qed

text \<open>
  Claim C10 as the specification words it has the add call issued whenever \<open>Updated\<close>
  is not empty. In the concrete run \<open>Updated\<close> is not empty, the remove call fails, and
  \<open>SsmUpdateTags\<close> returns its error with the remove call as the only call.
\<close>

theorem C10_add_call_counterexample:
  "New ex_tags_before = Some ex_old \<and> New ex_tags_after = Some ex_new
   \<and> \<not> Mapping.is_empty (Updated ex_old ex_new)
   \<and> SsmUpdateTags (ex_meta\<lparr>RemoveTagsFromResource_reply := (\<lambda>log i r ks. Some ex_denied)\<rparr>)
        ''/a/b'' ''Parameter'' ex_tags_before ex_tags_after [] =
       (Return (Some (WrapError ''error untagging resource (/a/b): '' ex_denied)),
        [RemoveTagsFromResource ''/a/b'' ''Parameter'' {''a''}])"
  by code_simp

end
